theory Spec2Isabelle
  imports Main "HOL-Library.Word"
begin

section \<open>The account/lease lifecycle store (pkg/db/db.go)\<close>

text \<open>
  The store talks to a key-value table service through the interface
  \<^verbatim>\<open>dynamodbiface.DynamoDBAPI\<close>. Every method of \<^verbatim>\<open>DB\<close> is embedded as a function
  that takes the state of the service and returns the Go result pair together with the
  new state. The client is a record of three state-passing functions, so the theorems
  that do not mention a particular table hold for every client. Go's \<^verbatim>\<open>(*T, error)\<close>
  is a pair of options: \<open>None\<close> is \<^verbatim>\<open>nil\<close>.
\<close>

subsection \<open>Attribute values, items and errors\<close>

type_synonym int64 = "64 word"

text \<open>
  \<^verbatim>\<open>dynamodb.AttributeValue\<close>: the variants the store reads and writes. The number of an
  \<open>N\<close> attribute is kept as an integer (the service transmits its decimal text, which
  \<^verbatim>\<open>strconv.FormatInt\<close> writes and the decoder parses back).
\<close>

datatype AttributeValue =
    S string
  | N int
  | BOOL bool
  | NULL
  | L "AttributeValue list"
  | M "(string \<times> AttributeValue) list"

text \<open>\<^verbatim>\<open>map[string]*dynamodb.AttributeValue\<close>\<close>

type_synonym Item = "string \<rightharpoonup> AttributeValue"

text \<open>
  The error values that reach a caller of the store:
  \<^item> \<open>AwsError code message\<close>: an \<^verbatim>\<open>awserr.Error\<close> (the only errors for which the
    type assertion \<^verbatim>\<open>err.(awserr.Error)\<close> succeeds);
  \<^item> \<open>ErrorString\<close>: \<^verbatim>\<open>errors.New\<close> and \<^verbatim>\<open>fmt.Errorf\<close>;
  \<^item> \<open>StatusTransitionError\<close>: \<^verbatim>\<open>&StatusTransitionError{msg}\<close>;
  \<^item> \<open>WithMessage err msg\<close>: \<^verbatim>\<open>errors2.Wrap(err, msg)\<close> and \<^verbatim>\<open>errors2.Wrapf\<close>;
  \<^item> \<open>UnmarshalTypeError\<close>: the attribute decoder met a value of the wrong type;
  \<^item> \<open>Panic\<close>: a run-time panic (a nil pointer dereference).
\<close>

datatype error =
    AwsError string string
  | ErrorString string
  | StatusTransitionError string
  | WithMessage error string
  | UnmarshalTypeError string string
  | Panic string

subsection \<open>The records\<close>

text \<open>\<^verbatim>\<open>type AccountStatus string\<close>, \<^verbatim>\<open>type LeaseStatus string\<close>,
  \<^verbatim>\<open>type LeaseStatusReason string\<close>: the code converts them with \<^verbatim>\<open>string(...)\<close>.\<close>

type_synonym AccountStatus = string
type_synonym LeaseStatus = string
type_synonym LeaseStatusReason = string

text \<open>
  Modelled from the spec: the declaration of \<^verbatim>\<open>Account\<close> (section 3 of the
  specification lists its fields). \<^verbatim>\<open>Metadata\<close>, a \<^verbatim>\<open>map[string]interface{}\<close>, is kept as
  the attribute map it is decoded from; \<open>None\<close> is the nil map.
\<close>

record Account =
  ID :: string
  Status :: AccountStatus
  LastModifiedOn :: int64
  CreatedOn :: int64
  AdminRoleArn :: string
  PrincipalRoleArn :: string
  PrincipalPolicyHash :: string
  Metadata :: "(string \<times> AttributeValue) list option"

text \<open>
  Modelled from the spec: the declaration of \<^verbatim>\<open>Lease\<close> (section 3 of the
  specification lists its fields).
\<close>

record Lease =
  AccountID :: string
  PrincipalID :: string
  ID :: string
  LeaseStatus :: LeaseStatus
  LeaseStatusReason :: LeaseStatusReason
  LeaseStatusModifiedOn :: int64
  ExpiresOn :: int64
  LastModifiedOn :: int64

subsection \<open>Decoding items into records\<close>

text \<open>
  \<^verbatim>\<open>dynamodbattribute.UnmarshalMap\<close> fills each field from the attribute that carries
  the field's external name: a missing or \<open>NULL\<close> attribute leaves the zero value, an
  attribute of the wrong type is an \<open>UnmarshalTypeError\<close>, attributes that match no
  field are ignored.

  The decoders below describe the library on the items the store itself writes and on
  items that differ from those in the type of an attribute. They read an attribute
  under exactly the field's external name. The library also accepts a name that differs
  from it only in the case of its letters, visits the attributes in the order of the Go
  map, and has its own treatment of a number met in a string field; an item with such
  attributes is outside what these definitions describe. The statements below about
  the transition of an arbitrary stored record therefore speak of the result of
  \<open>unmarshalAccount\<close> on the record as written and do not depend on how it is computed.
\<close>

definition decodeString :: "AttributeValue option \<Rightarrow> error + string" where
  "decodeString av =
     (case av of
        None \<Rightarrow> Inr []
      | Some NULL \<Rightarrow> Inr []
      | Some (S s) \<Rightarrow> Inr s
      | Some (N n) \<Rightarrow> Inl (UnmarshalTypeError ''number'' ''string'')
      | Some (BOOL b) \<Rightarrow> Inl (UnmarshalTypeError ''bool'' ''string'')
      | Some (L xs) \<Rightarrow> Inl (UnmarshalTypeError ''list'' ''string'')
      | Some (M xs) \<Rightarrow> Inl (UnmarshalTypeError ''map'' ''string''))"

definition decodeInt64 :: "AttributeValue option \<Rightarrow> error + int64" where
  "decodeInt64 av =
     (case av of
        None \<Rightarrow> Inr 0
      | Some NULL \<Rightarrow> Inr 0
      | Some (N n) \<Rightarrow>
          (if - (2 ^ 63) \<le> n \<and> n < 2 ^ 63 then Inr (word_of_int n)
           else Inl (UnmarshalTypeError ''number overflow'' ''int64''))
      | Some (S s) \<Rightarrow> Inl (UnmarshalTypeError ''string'' ''int64'')
      | Some (BOOL b) \<Rightarrow> Inl (UnmarshalTypeError ''bool'' ''int64'')
      | Some (L xs) \<Rightarrow> Inl (UnmarshalTypeError ''list'' ''int64'')
      | Some (M xs) \<Rightarrow> Inl (UnmarshalTypeError ''map'' ''int64''))"

definition decodeMap :: "AttributeValue option \<Rightarrow> error + (string \<times> AttributeValue) list option" where
  "decodeMap av =
     (case av of
        None \<Rightarrow> Inr None
      | Some NULL \<Rightarrow> Inr None
      | Some (M xs) \<Rightarrow> Inr (Some xs)
      | Some (S s) \<Rightarrow> Inl (UnmarshalTypeError ''string'' ''map'')
      | Some (N n) \<Rightarrow> Inl (UnmarshalTypeError ''number'' ''map'')
      | Some (BOOL b) \<Rightarrow> Inl (UnmarshalTypeError ''bool'' ''map'')
      | Some (L xs) \<Rightarrow> Inl (UnmarshalTypeError ''list'' ''map''))"

definition bindE :: "error + 'a \<Rightarrow> ('a \<Rightarrow> error + 'b) \<Rightarrow> error + 'b" where
  "bindE m f = (case m of Inl e \<Rightarrow> Inl e | Inr x \<Rightarrow> f x)"

text \<open>\<^verbatim>\<open>UnmarshalMap(dbResult, &account)\<close>: the external names of the account's fields
  are the attribute names the store itself uses (\<^verbatim>\<open>Id\<close>, \<^verbatim>\<open>AccountStatus\<close>,
  \<^verbatim>\<open>LastModifiedOn\<close>).\<close>

definition UnmarshalMap_Account :: "Item \<Rightarrow> error + Account" where
  "UnmarshalMap_Account it =
     bindE (decodeString (it ''Id'')) (\<lambda>i.
     bindE (decodeString (it ''AccountStatus'')) (\<lambda>st.
     bindE (decodeInt64 (it ''LastModifiedOn'')) (\<lambda>lm.
     bindE (decodeInt64 (it ''CreatedOn'')) (\<lambda>cr.
     bindE (decodeString (it ''AdminRoleArn'')) (\<lambda>ar.
     bindE (decodeString (it ''PrincipalRoleArn'')) (\<lambda>pr.
     bindE (decodeString (it ''PrincipalPolicyHash'')) (\<lambda>ph.
     bindE (decodeMap (it ''Metadata'')) (\<lambda>md.
       Inr \<lparr>Account.ID = i, Status = st, Account.LastModifiedOn = lm, CreatedOn = cr,
            AdminRoleArn = ar, PrincipalRoleArn = pr, PrincipalPolicyHash = ph,
            Metadata = md\<rparr>))))))))"

definition UnmarshalMap_Lease :: "Item \<Rightarrow> error + Lease" where
  "UnmarshalMap_Lease it =
     bindE (decodeString (it ''AccountId'')) (\<lambda>a.
     bindE (decodeString (it ''PrincipalId'')) (\<lambda>p.
     bindE (decodeString (it ''Id'')) (\<lambda>i.
     bindE (decodeString (it ''LeaseStatus'')) (\<lambda>st.
     bindE (decodeString (it ''LeaseStatusReason'')) (\<lambda>sr.
     bindE (decodeInt64 (it ''LeaseStatusModifiedOn'')) (\<lambda>sm.
     bindE (decodeInt64 (it ''ExpiresOn'')) (\<lambda>ex.
     bindE (decodeInt64 (it ''LastModifiedOn'')) (\<lambda>lm.
       Inr \<lparr>AccountID = a, PrincipalID = p, Lease.ID = i, LeaseStatus = st,
            LeaseStatusReason = sr, LeaseStatusModifiedOn = sm, ExpiresOn = ex,
            Lease.LastModifiedOn = lm\<rparr>))))))))"

text \<open>\<^verbatim>\<open>func unmarshalAccount(dbResult) (*Account, error)\<close>\<close>

definition unmarshalAccount :: "Item \<Rightarrow> Account option \<times> error option" where
  "unmarshalAccount dbResult =
     (case UnmarshalMap_Account dbResult of
        Inl err \<Rightarrow> (None, Some err)
      | Inr account \<Rightarrow> (Some account, None))"

text \<open>\<^verbatim>\<open>func unmarshalLease(dbResult) (*Lease, error)\<close>\<close>

definition unmarshalLease :: "Item \<Rightarrow> Lease option \<times> error option" where
  "unmarshalLease dbResult =
     (case UnmarshalMap_Lease dbResult of
        Inl err \<Rightarrow> (None, Some err)
      | Inr lease \<Rightarrow> (Some lease, None))"

subsection \<open>The client interface\<close>

text \<open>
  The requests of \<^verbatim>\<open>GetItem\<close>, \<^verbatim>\<open>Query\<close> and \<^verbatim>\<open>UpdateItem\<close>. An expression is kept
  together with its \<^verbatim>\<open>ExpressionAttributeNames\<close> and \<^verbatim>\<open>ExpressionAttributeValues\<close> in
  resolved form: the key condition \<^verbatim>\<open>"Id = :a1"\<close> with \<^verbatim>\<open>":a1": {S: leaseID}\<close> is the pair
  \<open>(''Id'', S leaseID)\<close>, an update expression \<^verbatim>\<open>"set A=:a, B=:b"\<close> is the list of its
  assignments, a condition expression \<^verbatim>\<open>"A = :a"\<close> is a pair.
\<close>

record GetItemInput =
  TableName :: string
  Key :: "(string \<times> AttributeValue) list"
  ConsistentRead :: bool

record GetItemOutput =
  Item :: "Item option"

record QueryInput =
  TableName :: string
  IndexName :: "string option"
  KeyConditionExpression :: "string \<times> AttributeValue"

record QueryOutput =
  Items :: "Item list"

record UpdateItemInput =
  TableName :: string
  Key :: "(string \<times> AttributeValue) list"
  UpdateExpression :: "(string \<times> AttributeValue) list"
  ConditionExpression :: "(string \<times> AttributeValue) option"
  ReturnValues :: string

record UpdateItemOutput =
  Attributes :: Item

record 's DynamoDBAPI =
  GetItem :: "GetItemInput \<Rightarrow> 's \<Rightarrow> (error + GetItemOutput) \<times> 's"
  Query :: "QueryInput \<Rightarrow> 's \<Rightarrow> (error + QueryOutput) \<times> 's"
  UpdateItem :: "UpdateItemInput \<Rightarrow> 's \<Rightarrow> (error + UpdateItemOutput) \<times> 's"

text \<open>\<^verbatim>\<open>type DB struct\<close>\<close>

record 's DB =
  Client :: "'s DynamoDBAPI"
  AccountTableName :: string
  LeaseTableName :: string
  DefaultLeaseLengthInDays :: int
  ConsistentRead :: bool

subsection \<open>Reads\<close>

text \<open>\<^verbatim>\<open>func (db *DB) GetAccount(accountID string) (*Account, error)\<close>\<close>

definition GetAccount :: "'s DB \<Rightarrow> string \<Rightarrow> 's \<Rightarrow> (Account option \<times> error option) \<times> 's" where
  "GetAccount db accountID s =
     (case GetItem (Client db)
             \<lparr>GetItemInput.TableName = AccountTableName db,
              GetItemInput.Key = [(''Id'', S accountID)],
              GetItemInput.ConsistentRead = DB.ConsistentRead db\<rparr> s of
        (Inl err, s') \<Rightarrow> ((None, Some err), s')
      | (Inr result, s') \<Rightarrow>
          (case Item result of
             None \<Rightarrow> ((None, None), s')
           | Some item \<Rightarrow> (unmarshalAccount item, s')))"

text \<open>The loop \<^verbatim>\<open>for _, item := range res.Items\<close> of \<^verbatim>\<open>FindAccountsByStatus\<close>; a
  \<^verbatim>\<open>[]*Account\<close> is a list of pointers.\<close>

fun FindAccountsByStatus_loop ::
  "Item list \<Rightarrow> Account option list \<Rightarrow> Account option list \<times> error option" where
  "FindAccountsByStatus_loop [] accounts = (accounts, None)"
| "FindAccountsByStatus_loop (item # items) accounts =
     (case unmarshalAccount item of
        (acct, Some err) \<Rightarrow> (accounts, Some err)
      | (acct, None) \<Rightarrow> FindAccountsByStatus_loop items (accounts @ [acct]))"

text \<open>\<^verbatim>\<open>func (db *DB) FindAccountsByStatus(status AccountStatus) ([]*Account, error)\<close>.
  A slice is an optional list: \<open>None\<close> is the nil slice, \<open>Some []\<close> the empty one
  (\<^verbatim>\<open>[]*Account{}\<close>).\<close>

definition FindAccountsByStatus ::
  "'s DB \<Rightarrow> AccountStatus \<Rightarrow> 's \<Rightarrow> (Account option list option \<times> error option) \<times> 's" where
  "FindAccountsByStatus db status s =
     (case Query (Client db)
             \<lparr>QueryInput.TableName = AccountTableName db,
              IndexName = Some ''AccountStatus'',
              KeyConditionExpression = (''AccountStatus'', S status)\<rparr> s of
        (Inl err, s') \<Rightarrow> ((Some [], Some err), s')
      | (Inr res, s') \<Rightarrow>
          (case FindAccountsByStatus_loop (Items res) [] of
             (accounts, err) \<Rightarrow> ((Some accounts, err), s')))"

text \<open>\<^verbatim>\<open>func (db *DB) GetLeaseByID(leaseID string) (*Lease, error)\<close>\<close>

definition GetLeaseByID :: "'s DB \<Rightarrow> string \<Rightarrow> 's \<Rightarrow> (Lease option \<times> error option) \<times> 's" where
  "GetLeaseByID db leaseID s =
     (case Query (Client db)
             \<lparr>QueryInput.TableName = LeaseTableName db,
              IndexName = Some ''LeaseId'',
              KeyConditionExpression = (''Id'', S leaseID)\<rparr> s of
        (Inl err, s') \<Rightarrow> ((None, Some err), s')
      | (Inr resp, s') \<Rightarrow>
          (if length (Items resp) < 1 then
             ((None, Some (ErrorString (''No Lease found with id: '' @ leaseID))), s')
           else if length (Items resp) > 1 then
             ((None, Some (ErrorString (''Found more than one Lease with id: '' @ leaseID))), s')
           else (unmarshalLease (Items resp ! 0), s')))"

text \<open>Go's \<^verbatim>\<open>append\<close> on a slice that may be nil.\<close>

definition append_slice :: "'a list option \<Rightarrow> 'a \<Rightarrow> 'a list option" where
  "append_slice xs x = (case xs of None \<Rightarrow> Some [x] | Some ys \<Rightarrow> Some (ys @ [x]))"

text \<open>The loop \<^verbatim>\<open>for _, r := range resp.Items\<close> of \<^verbatim>\<open>FindLeasesByPrincipal\<close>.\<close>

fun FindLeasesByPrincipal_loop ::
  "Item list \<Rightarrow> Lease option list option \<Rightarrow> Lease option list option \<times> error option" where
  "FindLeasesByPrincipal_loop [] leases = (leases, None)"
| "FindLeasesByPrincipal_loop (r # rs) leases =
     (case unmarshalLease r of
        (n, Some err) \<Rightarrow> (None, Some err)
      | (n, None) \<Rightarrow> FindLeasesByPrincipal_loop rs (append_slice leases n))"

text \<open>\<^verbatim>\<open>func (db *DB) FindLeasesByPrincipal(principalID string) ([]*Lease, error)\<close>;
  \<^verbatim>\<open>var leases []*Lease\<close> starts as the nil slice.\<close>

definition FindLeasesByPrincipal ::
  "'s DB \<Rightarrow> string \<Rightarrow> 's \<Rightarrow> (Lease option list option \<times> error option) \<times> 's" where
  "FindLeasesByPrincipal db principalID s =
     (case Query (Client db)
             \<lparr>QueryInput.TableName = LeaseTableName db,
              IndexName = Some ''PrincipalId'',
              KeyConditionExpression = (''PrincipalId'', S principalID)\<rparr> s of
        (Inl err, s') \<Rightarrow> ((None, Some err), s')
      | (Inr resp, s') \<Rightarrow>
          (if length (Items resp) = 0 then ((None, None), s')
           else (FindLeasesByPrincipal_loop (Items resp) None, s')))"

subsection \<open>Status transitions\<close>

text \<open>The character \<^verbatim>\<open>"\<close> of the format strings.\<close>

definition dq :: string where
  "dq = [CHR 0x22]"

text \<open>
  \<^verbatim>\<open>func (db *DB) TransitionLeaseStatus(accountID, principalID, prevStatus, nextStatus,
  leaseStatusReason) (*Lease, error)\<close>. The two calls of \<^verbatim>\<open>time.Now().Unix()\<close> are the
  parameters \<open>now1\<close> (for \<^verbatim>\<open>:lastModifiedOn\<close>) and \<open>now2\<close> (for
  \<^verbatim>\<open>:leaseStatusModifiedOn\<close>).
\<close>

definition TransitionLeaseStatus ::
  "'s DB \<Rightarrow> string \<Rightarrow> string \<Rightarrow> LeaseStatus \<Rightarrow> LeaseStatus \<Rightarrow> LeaseStatusReason \<Rightarrow>
   int64 \<Rightarrow> int64 \<Rightarrow> 's \<Rightarrow> (Lease option \<times> error option) \<times> 's" where
  "TransitionLeaseStatus db accountID principalID prevStatus nextStatus leaseStatusReason
       now1 now2 s =
     (case UpdateItem (Client db)
             \<lparr>UpdateItemInput.TableName = LeaseTableName db,
              UpdateItemInput.Key =
                [(''AccountId'', S accountID), (''PrincipalId'', S principalID)],
              UpdateExpression =
                [(''LeaseStatus'', S nextStatus),
                 (''LeaseStatusReason'', S leaseStatusReason),
                 (''LastModifiedOn'', N (sint now1)),
                 (''LeaseStatusModifiedOn'', N (sint now2))],
              ConditionExpression = Some (''LeaseStatus'', S prevStatus),
              ReturnValues = ''ALL_NEW''\<rparr> s of
        (Inl err, s') \<Rightarrow>
          (case err of
             AwsError code message \<Rightarrow>
               (if code = ''ConditionalCheckFailedException'' then
                  ((None, Some (StatusTransitionError
                     (''unable to update lease status from '' @ dq @ prevStatus @ dq @
                      '' to '' @ dq @ nextStatus @ dq @ '' for '' @ accountID @ ''/'' @
                      principalID @ '': no lease exists with Status='' @ dq @ prevStatus @
                      dq))), s')
                else ((None, Some err), s'))
           | _ \<Rightarrow> ((None, Some err), s'))
      | (Inr result, s') \<Rightarrow> (unmarshalLease (Attributes result), s'))"

text \<open>
  \<^verbatim>\<open>func (db *DB) TransitionAccountStatus(accountID, prevStatus, nextStatus)
  (*Account, error)\<close>; \<open>now\<close> is \<^verbatim>\<open>time.Now().Unix()\<close>.
\<close>

definition TransitionAccountStatus ::
  "'s DB \<Rightarrow> string \<Rightarrow> AccountStatus \<Rightarrow> AccountStatus \<Rightarrow> int64 \<Rightarrow> 's \<Rightarrow>
   (Account option \<times> error option) \<times> 's" where
  "TransitionAccountStatus db accountID prevStatus nextStatus now s =
     (case UpdateItem (Client db)
             \<lparr>UpdateItemInput.TableName = AccountTableName db,
              UpdateItemInput.Key = [(''Id'', S accountID)],
              UpdateExpression =
                [(''AccountStatus'', S nextStatus), (''LastModifiedOn'', N (sint now))],
              ConditionExpression = Some (''AccountStatus'', S prevStatus),
              ReturnValues = ''ALL_NEW''\<rparr> s of
        (Inl err, s') \<Rightarrow>
          (case err of
             AwsError code message \<Rightarrow>
               (if code = ''ConditionalCheckFailedException'' then
                  ((None, Some (StatusTransitionError
                     (''unable to update account status from '' @ dq @ prevStatus @ dq @
                      '' to '' @ dq @ nextStatus @ dq @ '' for account '' @ accountID @
                      '': no account exists with Status='' @ dq @ prevStatus @ dq))), s')
                else ((None, Some err), s'))
           | _ \<Rightarrow> ((None, Some err), s'))
      | (Inr result, s') \<Rightarrow> (unmarshalAccount (Attributes result), s'))"

subsection \<open>The expression builder\<close>

text \<open>
  A Go value as reflection shows it (\<^verbatim>\<open>interface{}\<close>): the kinds of the lease's fields.
\<close>

datatype GoValue = GoString string | GoInt64 int64

text \<open>A struct field as \<^verbatim>\<open>reflect\<close> shows it: its name, its tag (a list of
  \<^verbatim>\<open>key:"value"\<close> pairs) and its value.\<close>

record StructField =
  Name :: string
  Tag :: "(string \<times> string) list"
  FieldValue :: GoValue

datatype Obj = GoStruct "StructField list" | NotAStruct

text \<open>
  Modelled from the spec: the declaration of \<^verbatim>\<open>Lease\<close> as reflection shows it. The
  \<^verbatim>\<open>json\<close> tags are the attribute names under which db.go reads and writes the lease
  table (\<^verbatim>\<open>AccountId\<close>, \<^verbatim>\<open>PrincipalId\<close>, \<^verbatim>\<open>Id\<close>, \<^verbatim>\<open>LeaseStatus\<close>, ...), the names
  \<open>UnmarshalMap_Lease\<close> decodes from.
\<close>

definition Lease_struct :: "Lease \<Rightarrow> Obj" where
  "Lease_struct l = GoStruct
     [\<lparr>Name = ''AccountID'', Tag = [(''json'', ''AccountId'')],
        FieldValue = GoString (AccountID l)\<rparr>,
      \<lparr>Name = ''PrincipalID'', Tag = [(''json'', ''PrincipalId'')],
        FieldValue = GoString (PrincipalID l)\<rparr>,
      \<lparr>Name = ''ID'', Tag = [(''json'', ''Id'')],
        FieldValue = GoString (Lease.ID l)\<rparr>,
      \<lparr>Name = ''LeaseStatus'', Tag = [(''json'', ''LeaseStatus'')],
        FieldValue = GoString (LeaseStatus l)\<rparr>,
      \<lparr>Name = ''LeaseStatusReason'', Tag = [(''json'', ''LeaseStatusReason'')],
        FieldValue = GoString (LeaseStatusReason l)\<rparr>,
      \<lparr>Name = ''LeaseStatusModifiedOn'', Tag = [(''json'', ''LeaseStatusModifiedOn'')],
        FieldValue = GoInt64 (LeaseStatusModifiedOn l)\<rparr>,
      \<lparr>Name = ''ExpiresOn'', Tag = [(''json'', ''ExpiresOn'')],
        FieldValue = GoInt64 (ExpiresOn l)\<rparr>,
      \<lparr>Name = ''LastModifiedOn'', Tag = [(''json'', ''LastModifiedOn'')],
        FieldValue = GoInt64 (Lease.LastModifiedOn l)\<rparr>]"

text \<open>\<^verbatim>\<open>reflections.Items(obj)\<close>: the fields of a struct by name. (A Go map; the loop
  below visits it in the order of the struct's fields.)\<close>

definition reflections_Items :: "Obj \<Rightarrow> error + (string \<times> GoValue) list" where
  "reflections_Items ob =
     (case ob of
        NotAStruct \<Rightarrow> Inl (ErrorString ''Cannot use GetField on a non-struct interface'')
      | GoStruct fs \<Rightarrow> Inr (map (\<lambda>f. (Name f, FieldValue f)) fs))"

text \<open>\<^verbatim>\<open>reflections.GetFieldTag(obj, fieldName, tagKey)\<close>\<close>

definition reflections_GetFieldTag :: "Obj \<Rightarrow> string \<Rightarrow> string \<Rightarrow> error + string" where
  "reflections_GetFieldTag ob fieldName tagKey =
     (case ob of
        NotAStruct \<Rightarrow> Inl (ErrorString ''Cannot use GetField on a non-struct interface'')
      | GoStruct fs \<Rightarrow>
          (case find (\<lambda>f. Name f = fieldName) fs of
             None \<Rightarrow> Inl (ErrorString (''No such field: '' @ fieldName @ '' in obj''))
           | Some f \<Rightarrow>
               Inr (case map_of (Tag f) tagKey of None \<Rightarrow> [] | Some v \<Rightarrow> v)))"

text \<open>\<^verbatim>\<open>expression.UpdateBuilder\<close>: the \<^verbatim>\<open>SET\<close> operations added so far;
  \<^verbatim>\<open>updateBuilder.Set(expression.Name(n), expression.Value(v))\<close> adds one.\<close>

type_synonym UpdateBuilder = "(string \<times> GoValue) list"

definition UpdateBuilder_Set :: "UpdateBuilder \<Rightarrow> string \<Rightarrow> GoValue \<Rightarrow> UpdateBuilder" where
  "UpdateBuilder_Set ub n v = ub @ [(n, v)]"

text \<open>\<^verbatim>\<open>dynamodbattribute.Marshal\<close>, which \<^verbatim>\<open>expression.Value\<close> applies when the
  expression is built: an empty string is encoded as \<open>NULL\<close>.\<close>

definition Marshal :: "GoValue \<Rightarrow> AttributeValue" where
  "Marshal v = (case v of GoString s \<Rightarrow> (if s = [] then NULL else S s) | GoInt64 n \<Rightarrow> N (sint n))"

text \<open>\<^verbatim>\<open>expression.Expression\<close> of an update, in resolved form: what \<^verbatim>\<open>expr.Update()\<close>
  assigns once \<^verbatim>\<open>expr.Names()\<close> and \<^verbatim>\<open>expr.Values()\<close> are substituted.\<close>

record Expression =
  Update :: "(string \<times> AttributeValue) list"

text \<open>\<^verbatim>\<open>expression.NewBuilder().WithUpdate(updateBuilder).Build()\<close>: fails on a builder
  with no operation and on an empty attribute name; the expression returned with an
  error is the zero value.\<close>

definition Builder_Build :: "UpdateBuilder \<Rightarrow> Expression \<times> error option" where
  "Builder_Build ub =
     (if ub = [] then
        (\<lparr>Update = []\<rparr>, Some (ErrorString ''unset parameter: UpdateBuilder''))
      else if list_ex (\<lambda>(n, v). n = []) ub then
        (\<lparr>Update = []\<rparr>, Some (ErrorString ''unset parameter: NameBuilder''))
      else (\<lparr>Update = map (\<lambda>(n, v). (n, Marshal v)) ub\<rparr>, None))"

text \<open>\<^verbatim>\<open>type buildUpdateExpressInput struct\<close>\<close>

record buildUpdateExpressInput =
  obj :: Obj
  excludeFields :: "string list"
  includeFields :: "string list"

text \<open>\<^verbatim>\<open>func containsStr(list []string, item string) bool\<close>\<close>

fun containsStr :: "string list \<Rightarrow> string \<Rightarrow> bool" where
  "containsStr [] item = False"
| "containsStr (i # list) item = (if i = item then True else containsStr list item)"

text \<open>The loop \<^verbatim>\<open>for fieldName, fieldVal := range reflectItems\<close> of
  \<^verbatim>\<open>buildUpdateExpression\<close>.\<close>

fun buildUpdateExpression_loop ::
  "buildUpdateExpressInput \<Rightarrow> bool \<Rightarrow> bool \<Rightarrow> (string \<times> GoValue) list \<Rightarrow> UpdateBuilder \<Rightarrow>
   error + UpdateBuilder" where
  "buildUpdateExpression_loop inp shouldExclude shouldInclude [] updateBuilder =
     Inr updateBuilder"
| "buildUpdateExpression_loop inp shouldExclude shouldInclude ((fieldName, fieldVal) # rest)
       updateBuilder =
     (let isExcluded = shouldExclude \<and> containsStr (excludeFields inp) fieldName;
          isNotIncluded = shouldInclude \<and> \<not> containsStr (includeFields inp) fieldName
      in if isExcluded \<or> isNotIncluded then
           buildUpdateExpression_loop inp shouldExclude shouldInclude rest updateBuilder
         else
           (case reflections_GetFieldTag (obj inp) fieldName ''json'' of
              Inl err \<Rightarrow> Inl err
            | Inr jsonFieldName \<Rightarrow>
                buildUpdateExpression_loop inp shouldExclude shouldInclude rest
                  (UpdateBuilder_Set updateBuilder jsonFieldName fieldVal)))"

text \<open>\<^verbatim>\<open>func buildUpdateExpression(input *buildUpdateExpressInput)
  (*expression.Expression, error)\<close>; the last line returns \<^verbatim>\<open>&expr, err\<close>, a non-nil
  pointer whatever \<^verbatim>\<open>err\<close> is.\<close>

definition buildUpdateExpression ::
  "buildUpdateExpressInput \<Rightarrow> Expression option \<times> error option" where
  "buildUpdateExpression inp =
     (let shouldExclude = length (excludeFields inp) > 0;
          shouldInclude = length (includeFields inp) > 0
      in if shouldExclude \<and> shouldInclude then
           (None, Some (ErrorString
              (''unable to build DynDB update expression: '' @
               ''request may specify includeFields or excludeFields, but not both'')))
         else
           (case reflections_Items (obj inp) of
              Inl err \<Rightarrow> (None, Some err)
            | Inr reflectItems \<Rightarrow>
                (case buildUpdateExpression_loop inp shouldExclude shouldInclude
                        reflectItems [] of
                   Inl err \<Rightarrow> (None, Some err)
                 | Inr updateBuilder \<Rightarrow>
                     (case Builder_Build updateBuilder of
                        (expr, err) \<Rightarrow> (Some expr, err)))))"

subsection \<open>Upsert\<close>

text \<open>\<^verbatim>\<open>func (db *DB) UpsertLease(lease Lease) (*Lease, error)\<close>\<close>

definition UpsertLease :: "'s DB \<Rightarrow> Lease \<Rightarrow> 's \<Rightarrow> (Lease option \<times> error option) \<times> 's" where
  "UpsertLease db lease s =
     (if length (Lease.ID lease) = 0 then
        ((None, Some (ErrorString
           (''failed to create lease for '' @ PrincipalID lease @ ''/'' @ AccountID lease @
            '': missing ID''))), s)
      else if ExpiresOn lease = 0 then
        ((None, Some (ErrorString
           (''failed to create lease for '' @ PrincipalID lease @ ''/'' @ AccountID lease @
            '': missing ExpiresOn''))), s)
      else
        (case buildUpdateExpression
                \<lparr>obj = Lease_struct lease,
                 excludeFields = [''AccountID'', ''PrincipalID''],
                 includeFields = []\<rparr> of
           (e, Some err) \<Rightarrow>
             ((None, Some (WithMessage err
                (''Failed to update lease '' @ PrincipalID lease @ ''/'' @ AccountID lease))), s)
         | (None, None) \<Rightarrow> ((None, Some (Panic ''nil pointer dereference'')), s)
         | (Some expr, None) \<Rightarrow>
             (case UpdateItem (Client db)
                     \<lparr>UpdateItemInput.TableName = LeaseTableName db,
                      UpdateItemInput.Key =
                        [(''AccountId'', S (AccountID lease)),
                         (''PrincipalId'', S (PrincipalID lease))],
                      UpdateExpression = Update expr,
                      ConditionExpression = None,
                      ReturnValues = ''ALL_NEW''\<rparr> s of
                (Inl err, s') \<Rightarrow>
                  (let msg = ''Failed to update lease '' @ PrincipalID lease @ ''/'' @
                             AccountID lease;
                       msg' = (case err of
                                 AwsError code message \<Rightarrow> msg @ '' ['' @ code @ '']''
                               | _ \<Rightarrow> msg)
                   in ((None, Some (WithMessage err msg')), s'))
              | (Inr res, s') \<Rightarrow>
                  (case unmarshalLease (Attributes res) of
                     (l, Some err) \<Rightarrow>
                       ((None, Some (WithMessage err
                          (''Failed to update lease '' @ PrincipalID lease @ ''/'' @
                           AccountID lease))), s')
                   | (updatedLease, None) \<Rightarrow> ((updatedLease, None), s')))))"

subsection \<open>A reference table service\<close>

text \<open>
  Statements about what is stored need the behaviour of the service behind the
  client. \<open>dynamo\<close> is an in-memory service with the documented behaviour of the three
  calls: a table is the list of its items, a table name that is not known is a
  \<^verbatim>\<open>ResourceNotFoundException\<close>, \<^verbatim>\<open>GetItem\<close> returns no item (a nil map) when no item
  has the key, \<^verbatim>\<open>Query\<close> returns the items whose indexed attribute has the value asked
  for, and \<^verbatim>\<open>UpdateItem\<close> is one atomic step: it evaluates the condition on the item
  stored under the key (a comparison with an attribute of an absent item is false),
  fails with \<^verbatim>\<open>ConditionalCheckFailedException\<close> and writes nothing when the condition
  is false, and otherwise applies the assignments to the item (created from the key
  when absent) and returns the new item for \<^verbatim>\<open>ALL_NEW\<close>. Assigning a key attribute is a
  \<^verbatim>\<open>ValidationException\<close>.
\<close>

type_synonym Dynamo = "string \<rightharpoonup> Item list"

definition has_key :: "(string \<times> AttributeValue) list \<Rightarrow> Item \<Rightarrow> bool" where
  "has_key k it = list_all (\<lambda>(n, v). it n = Some v) k"

definition condition_holds :: "(string \<times> AttributeValue) option \<Rightarrow> Item option \<Rightarrow> bool" where
  "condition_holds c old =
     (case c of
        None \<Rightarrow> True
      | Some (n, v) \<Rightarrow> (case old of None \<Rightarrow> False | Some it \<Rightarrow> it n = Some v))"

fun apply_update :: "(string \<times> AttributeValue) list \<Rightarrow> Item \<Rightarrow> Item" where
  "apply_update [] it = it"
| "apply_update ((n, v) # sets) it = apply_update sets (it(n \<mapsto> v))"

definition dynamo_GetItem :: "GetItemInput \<Rightarrow> Dynamo \<Rightarrow> (error + GetItemOutput) \<times> Dynamo" where
  "dynamo_GetItem inp d =
     (case d (GetItemInput.TableName inp) of
        None \<Rightarrow> (Inl (AwsError ''ResourceNotFoundException'' ''Requested resource not found''), d)
      | Some items \<Rightarrow> (Inr \<lparr>Item = find (has_key (GetItemInput.Key inp)) items\<rparr>, d))"

definition dynamo_Query :: "QueryInput \<Rightarrow> Dynamo \<Rightarrow> (error + QueryOutput) \<times> Dynamo" where
  "dynamo_Query inp d =
     (case d (QueryInput.TableName inp) of
        None \<Rightarrow> (Inl (AwsError ''ResourceNotFoundException'' ''Requested resource not found''), d)
      | Some items \<Rightarrow>
          (Inr \<lparr>Items = filter (\<lambda>it. it (fst (KeyConditionExpression inp)) =
                                      Some (snd (KeyConditionExpression inp))) items\<rparr>, d))"

definition dynamo_UpdateItem ::
  "UpdateItemInput \<Rightarrow> Dynamo \<Rightarrow> (error + UpdateItemOutput) \<times> Dynamo" where
  "dynamo_UpdateItem inp d =
     (case d (UpdateItemInput.TableName inp) of
        None \<Rightarrow> (Inl (AwsError ''ResourceNotFoundException'' ''Requested resource not found''), d)
      | Some items \<Rightarrow>
          (let old = find (has_key (UpdateItemInput.Key inp)) items;
               new = apply_update (UpdateExpression inp)
                       (case old of
                          None \<Rightarrow> map_of (UpdateItemInput.Key inp)
                        | Some it \<Rightarrow> it)
           in if list_ex (\<lambda>(n, v). n \<in> fst ` set (UpdateItemInput.Key inp))
                   (UpdateExpression inp)
              then (Inl (AwsError ''ValidationException''
                           ''Cannot update attribute. This attribute is part of the key''), d)
              else if \<not> condition_holds (ConditionExpression inp) old
              then (Inl (AwsError ''ConditionalCheckFailedException''
                           ''The conditional request failed''), d)
              else (Inr \<lparr>Attributes =
                           (if ReturnValues inp = ''ALL_NEW'' then new else Map.empty)\<rparr>,
                    d(UpdateItemInput.TableName inp \<mapsto>
                        (case old of
                           None \<Rightarrow> items @ [new]
                         | Some it \<Rightarrow>
                             map (\<lambda>it. if has_key (UpdateItemInput.Key inp) it then new
                                        else it) items)))))"

definition dynamo :: "Dynamo DynamoDBAPI" where
  "dynamo = \<lparr>GetItem = dynamo_GetItem, Query = dynamo_Query, UpdateItem = dynamo_UpdateItem\<rparr>"

text \<open>A store on the reference service, with the table names of the tests.\<close>

definition dynamo_db :: "Dynamo DB" where
  "dynamo_db = \<lparr>Client = dynamo, AccountTableName = ''Accounts'', LeaseTableName = ''Leases'',
                DefaultLeaseLengthInDays = 7, DB.ConsistentRead = False\<rparr>"

subsection \<open>Recording the calls a store makes\<close>

text \<open>A client that behaves as the one it wraps and appends every request to a log.\<close>

datatype Call = CallGetItem GetItemInput | CallQuery QueryInput | CallUpdateItem UpdateItemInput

definition traced :: "'s DynamoDBAPI \<Rightarrow> ('s \<times> Call list) DynamoDBAPI" where
  "traced c =
     \<lparr>GetItem = (\<lambda>inp (s, calls).
                  case GetItem c inp s of (r, s') \<Rightarrow> (r, (s', calls @ [CallGetItem inp]))),
      Query = (\<lambda>inp (s, calls).
                  case Query c inp s of (r, s') \<Rightarrow> (r, (s', calls @ [CallQuery inp]))),
      UpdateItem = (\<lambda>inp (s, calls).
                  case UpdateItem c inp s of (r, s') \<Rightarrow> (r, (s', calls @ [CallUpdateItem inp])))\<rparr>"

subsection \<open>Concurrent callers of one transition\<close>

text \<open>
  Several callers issue \<open>TransitionAccountStatus\<close> with the same account and the same
  previous and next status. A caller reads its clock and makes its one call to the
  service; the service executes the calls one at a time, in any order. A configuration
  holds, for every caller, its clock reading and its result once it has returned, and
  the state of the service. A step lets any caller that has not returned make its
  call.
\<close>

type_synonym caller = "int64 \<times> (Account option \<times> error option) option"

inductive transition_step ::
  "'s DB \<Rightarrow> string \<Rightarrow> AccountStatus \<Rightarrow> AccountStatus \<Rightarrow>
   caller list \<times> 's \<Rightarrow> caller list \<times> 's \<Rightarrow> bool"
  for db accountID prevStatus nextStatus where
  call: "i < length cs \<Longrightarrow> cs ! i = (now, None) \<Longrightarrow>
     TransitionAccountStatus db accountID prevStatus nextStatus now s = (r, s') \<Longrightarrow>
     transition_step db accountID prevStatus nextStatus (cs, s) (cs[i := (now, Some r)], s')"

text \<open>A call succeeded when it returned a record and no error; it met a conflict when
  it returned a \<open>StatusTransitionError\<close>.\<close>

fun succeeded :: "Account option \<times> error option \<Rightarrow> bool" where
  "succeeded (Some a, None) = True"
| "succeeded r = False"

fun conflicted :: "Account option \<times> error option \<Rightarrow> bool" where
  "conflicted (None, Some (StatusTransitionError m)) = True"
| "conflicted r = False"

text \<open>The invariant of the runs that start with the record \<open>it0\<close> stored: either the
  record is still \<open>it0\<close> and no caller has returned, or the record is \<open>it0\<close> with the
  write of one caller applied, that caller has returned what \<open>unmarshalAccount\<close> makes
  of the record as written, and every other caller that has returned met a conflict.\<close>

definition transition_inv ::
  "string \<Rightarrow> string \<Rightarrow> AccountStatus \<Rightarrow> Item \<Rightarrow> caller list \<times> Dynamo \<Rightarrow> bool" where
  "transition_inv tn accountID nextStatus it0 cfg =
     (\<exists>accounts it. snd cfg tn = Some accounts \<and>
        find (has_key [(''Id'', S accountID)]) accounts = Some it \<and>
        ((it = it0 \<and> (\<forall>k < length (fst cfg). snd (fst cfg ! k) = None)) \<or>
         (\<exists>j < length (fst cfg).
             it = it0(''AccountStatus'' \<mapsto> S nextStatus,
                      ''LastModifiedOn'' \<mapsto> N (sint (fst (fst cfg ! j)))) \<and>
             snd (fst cfg ! j) = Some (unmarshalAccount it) \<and>
             (\<forall>k < length (fst cfg). k \<noteq> j \<longrightarrow>
                snd (fst cfg ! k) = None \<or>
                (\<exists>r. snd (fst cfg ! k) = Some r \<and> conflicted r)))))"

subsection \<open>The specification's words for the expression builder\<close>

text \<open>
  Section 4.2 of the specification speaks of a record's external (serialized) field
  names and of the fields an exclude list or an include list selects. These two
  definitions follow its words; the theorems compare them with what
  \<open>buildUpdateExpression\<close> computes.
\<close>

definition external_name :: "StructField \<Rightarrow> string" where
  "external_name f = (case map_of (Tag f) ''json'' of None \<Rightarrow> [] | Some v \<Rightarrow> v)"

definition selected :: "buildUpdateExpressInput \<Rightarrow> StructField \<Rightarrow> bool" where
  "selected inp f =
     ((excludeFields inp = [] \<or> Name f \<notin> set (excludeFields inp)) \<and>
      (includeFields inp = [] \<or> Name f \<in> set (includeFields inp)))"

subsection \<open>Example tables\<close>

text \<open>The account \<^verbatim>\<open>111\<close> at status \<^verbatim>\<open>Ready\<close> and the lease \<^verbatim>\<open>lease-1\<close> of the
  specification's scenarios; \<open>corrupt_store\<close> holds two leases with one lease id.\<close>

definition account_111 :: Item where
  "account_111 = [''Id'' \<mapsto> S ''111'', ''AccountStatus'' \<mapsto> S ''Ready'',
                  ''LastModifiedOn'' \<mapsto> N 1573592058]"

definition lease_1 :: Item where
  "lease_1 = [''AccountId'' \<mapsto> S ''111'', ''PrincipalId'' \<mapsto> S ''u1'',
              ''Id'' \<mapsto> S ''lease-1'', ''LeaseStatus'' \<mapsto> S ''Active'',
              ''ExpiresOn'' \<mapsto> N 1700000000]"

definition lease_2 :: Item where
  "lease_2 = [''AccountId'' \<mapsto> S ''222'', ''PrincipalId'' \<mapsto> S ''u2'',
              ''Id'' \<mapsto> S ''lease-1'', ''LeaseStatus'' \<mapsto> S ''Inactive'',
              ''ExpiresOn'' \<mapsto> N 1700000000]"

definition example_store :: Dynamo where
  "example_store = [''Accounts'' \<mapsto> [account_111], ''Leases'' \<mapsto> [lease_1]]"

definition corrupt_store :: Dynamo where
  "corrupt_store = [''Accounts'' \<mapsto> [account_111], ''Leases'' \<mapsto> [lease_1, lease_2]]"

text \<open>An account record at status \<^verbatim>\<open>Ready\<close> whose \<^verbatim>\<open>CreatedOn\<close> attribute is a
  string, where the field is an \<^verbatim>\<open>int64\<close>.\<close>

definition account_333 :: Item where
  "account_333 = [''Id'' \<mapsto> S ''333'', ''AccountStatus'' \<mapsto> S ''Ready'',
                  ''CreatedOn'' \<mapsto> S ''yesterday'']"

definition store_333 :: Dynamo where
  "store_333 = [''Accounts'' \<mapsto> [account_333], ''Leases'' \<mapsto> []]"

text \<open>The lease of the specification's round-trip scenario, and a struct with a field
  whose external name differs from its internal one.\<close>

definition example_lease :: Lease where
  "example_lease = \<lparr>AccountID = ''111'', PrincipalID = ''u1'', Lease.ID = ''lease-1'',
                     LeaseStatus = ''Active'', LeaseStatusReason = [],
                     LeaseStatusModifiedOn = 0, ExpiresOn = 1700000000,
                     Lease.LastModifiedOn = 0\<rparr>"

definition example_fields :: "StructField list" where
  "example_fields =
     [\<lparr>Name = ''ID'', Tag = [(''json'', ''Id'')], FieldValue = GoString ''lease-1''\<rparr>,
      \<lparr>Name = ''ExpiresOn'', Tag = [(''json'', ''ExpiresOn'')],
        FieldValue = GoInt64 1700000000\<rparr>,
      \<lparr>Name = ''Note'', Tag = [(''json'', ''note'')], FieldValue = GoString ''n''\<rparr>]"

text \<open>The store of \<open>dynamo_db\<close> with its calls recorded.\<close>

definition traced_db :: "(Dynamo \<times> Call list) DB" where
  "traced_db = \<lparr>Client = traced dynamo, AccountTableName = ''Accounts'',
                LeaseTableName = ''Leases'', DefaultLeaseLengthInDays = 7,
                DB.ConsistentRead = False\<rparr>"

section \<open>Properties\<close>

lemmas example_defs =
  account_111_def lease_1_def lease_2_def example_store_def corrupt_store_def dynamo_db_def
  traced_db_def example_lease_def example_fields_def account_333_def store_333_def

lemma has_key_single [simp]: "has_key [(n, v)] it = (it n = Some v)"
  by (simp add: has_key_def)

lemma has_key_pair [simp]:
  "has_key [(n, v), (n', v')] it = (it n = Some v \<and> it n' = Some v')"
  by (simp add: has_key_def)

subsection \<open>Point lookup of an account\<close>

lemma GetAccount_error_cases:
  "GetAccount db accountID s = ((r, Some e), s') \<Longrightarrow>
   (case fst (GetItem (Client db)
             \<lparr>GetItemInput.TableName = AccountTableName db,
              GetItemInput.Key = [(''Id'', S accountID)],
              GetItemInput.ConsistentRead = DB.ConsistentRead db\<rparr> s) of
      Inl err \<Rightarrow> err = e
    | Inr result \<Rightarrow> \<exists>item. Item result = Some item \<and> unmarshalAccount item = (r, Some e))"
  by (auto simp: GetAccount_def split: prod.splits sum.splits option.splits)

text \<open>
  C8. When the account table holds no record for \<open>accountID\<close>, \<open>GetAccount\<close> returns
  a nil account and a nil error, and leaves the table as it was. For every client, an
  error that \<open>GetAccount\<close> returns is either the error of the failed \<^verbatim>\<open>GetItem\<close> call
  or the decoding error of a record that exists: an absent record never yields one.
  (The service reports an absent record by returning no item, the nil map that
  \<open>GetAccount\<close> tests for.)
\<close>

theorem GetAccount_absent:
  "(Client db = dynamo \<and> d (AccountTableName db) = Some items \<and>
      \<not> (\<exists>it \<in> set items. it ''Id'' = Some (S accountID)) \<longrightarrow>
      GetAccount db accountID d = ((None, None), d)) \<and>
   (GetAccount db' accountID s = ((r, Some e), s') \<longrightarrow>
      (case fst (GetItem (Client db')
                \<lparr>GetItemInput.TableName = AccountTableName db',
                 GetItemInput.Key = [(''Id'', S accountID)],
                 GetItemInput.ConsistentRead = DB.ConsistentRead db'\<rparr> s) of
         Inl err \<Rightarrow> err = e
       | Inr result \<Rightarrow>
           \<exists>item. Item result = Some item \<and> unmarshalAccount item = (r, Some e)))"
proof (intro conjI impI)
  assume a: "Client db = dynamo \<and> d (AccountTableName db) = Some items \<and>
      \<not> (\<exists>it \<in> set items. it ''Id'' = Some (S accountID))"
  then have "find (has_key [(''Id'', S accountID)]) items = None"
    by (simp add: find_None_iff)
  with a show "GetAccount db accountID d = ((None, None), d)"
    by (simp add: GetAccount_def dynamo_def dynamo_GetItem_def)
next
  assume "GetAccount db' accountID s = ((r, Some e), s')"
  then show "case fst (GetItem (Client db')
                \<lparr>GetItemInput.TableName = AccountTableName db',
                 GetItemInput.Key = [(''Id'', S accountID)],
                 GetItemInput.ConsistentRead = DB.ConsistentRead db'\<rparr> s) of
         Inl err \<Rightarrow> err = e
       | Inr result \<Rightarrow>
           \<exists>item. Item result = Some item \<and> unmarshalAccount item = (r, Some e)"
    by (rule GetAccount_error_cases)
qed

theorem GetAccount_absent_witness:
  "GetAccount dynamo_db ''222'' example_store = ((None, None), example_store) \<and>
   GetAccount dynamo_db ''111'' [''Leases'' \<mapsto> []] =
     ((None, Some (AwsError ''ResourceNotFoundException'' ''Requested resource not found'')),
      [''Leases'' \<mapsto> []])"
  using GetAccount_absent [of dynamo_db example_store "[account_111]" "''222''" dynamo_db
          "[''Leases'' \<mapsto> []]" None
          "AwsError ''ResourceNotFoundException'' ''Requested resource not found''"
          "[''Leases'' \<mapsto> []]"]
  by (simp add: example_defs GetAccount_def dynamo_def dynamo_GetItem_def)

subsection \<open>Lookup of a lease by its id\<close>

lemma GetLeaseByID_dynamo:
  assumes "Client db = dynamo" and "d (LeaseTableName db) = Some items"
  shows "GetLeaseByID db leaseID d =
     (let ms = filter (\<lambda>it. it ''Id'' = Some (S leaseID)) items in
      if length ms < 1 then
        ((None, Some (ErrorString (''No Lease found with id: '' @ leaseID))), d)
      else if length ms > 1 then
        ((None, Some (ErrorString (''Found more than one Lease with id: '' @ leaseID))), d)
      else (unmarshalLease (ms ! 0), d))"
  using assms by (simp add: GetLeaseByID_def dynamo_def dynamo_Query_def Let_def)

text \<open>
  C5. On the lease table, let \<open>ms\<close> be the records whose \<^verbatim>\<open>Id\<close> attribute is
  \<open>leaseID\<close> (what the \<^verbatim>\<open>LeaseId\<close> index matches). With no match \<open>GetLeaseByID\<close>
  fails with the not-found error, with two or more it fails with the
  more-than-one error, with exactly one it returns what \<open>unmarshalLease\<close> makes of that
  record; and it returns a lease only when exactly one record matches.
\<close>

theorem GetLeaseByID_matches:
  assumes "Client db = dynamo" and "d (LeaseTableName db) = Some items"
    and "ms = filter (\<lambda>it. it ''Id'' = Some (S leaseID)) items"
  shows "(length ms = 0 \<longrightarrow>
            GetLeaseByID db leaseID d =
              ((None, Some (ErrorString (''No Lease found with id: '' @ leaseID))), d)) \<and>
         (2 \<le> length ms \<longrightarrow>
            GetLeaseByID db leaseID d =
              ((None, Some (ErrorString (''Found more than one Lease with id: '' @ leaseID))), d)) \<and>
         (length ms = 1 \<longrightarrow> GetLeaseByID db leaseID d = (unmarshalLease (hd ms), d)) \<and>
         (fst (fst (GetLeaseByID db leaseID d)) \<noteq> None \<longrightarrow> length ms = 1)"
proof -
  have eq: "GetLeaseByID db leaseID d =
     (if length ms < 1 then
        ((None, Some (ErrorString (''No Lease found with id: '' @ leaseID))), d)
      else if length ms > 1 then
        ((None, Some (ErrorString (''Found more than one Lease with id: '' @ leaseID))), d)
      else (unmarshalLease (ms ! 0), d))"
    using GetLeaseByID_dynamo [of db d items leaseID] assms by (simp add: Let_def)
  have a: "length ms = 0 \<longrightarrow> GetLeaseByID db leaseID d =
       ((None, Some (ErrorString (''No Lease found with id: '' @ leaseID))), d)"
    using eq by (simp add: Let_def)
  have b: "2 \<le> length ms \<longrightarrow> GetLeaseByID db leaseID d =
       ((None, Some (ErrorString (''Found more than one Lease with id: '' @ leaseID))), d)"
    using eq by (simp add: Let_def)
  have c: "length ms = 1 \<longrightarrow> GetLeaseByID db leaseID d = (unmarshalLease (hd ms), d)"
    using eq by (auto simp: Let_def hd_conv_nth)
  have e: "fst (fst (GetLeaseByID db leaseID d)) \<noteq> None \<longrightarrow> length ms = 1"
    using eq by (cases ms) (auto split: if_splits)
  from a b c e show ?thesis by blast
qed

theorem GetLeaseByID_matches_witness:
  "GetLeaseByID dynamo_db ''lease-9'' example_store =
     ((None, Some (ErrorString ''No Lease found with id: lease-9'')), example_store) \<and>
   GetLeaseByID dynamo_db ''lease-1'' corrupt_store =
     ((None, Some (ErrorString ''Found more than one Lease with id: lease-1'')), corrupt_store) \<and>
   GetLeaseByID dynamo_db ''lease-1'' example_store =
     ((Some \<lparr>AccountID = ''111'', PrincipalID = ''u1'', Lease.ID = ''lease-1'',
              LeaseStatus = ''Active'', LeaseStatusReason = [], LeaseStatusModifiedOn = 0,
              ExpiresOn = 1700000000, Lease.LastModifiedOn = 0\<rparr>, None), example_store)"
proof -
  have w0: "GetLeaseByID dynamo_db ''lease-9'' example_store =
     ((None, Some (ErrorString ''No Lease found with id: lease-9'')), example_store)"
    using GetLeaseByID_matches [of dynamo_db example_store "[lease_1]" "[]" "''lease-9''"]
    by (simp add: example_defs)
  have w2: "GetLeaseByID dynamo_db ''lease-1'' corrupt_store =
     ((None, Some (ErrorString ''Found more than one Lease with id: lease-1'')), corrupt_store)"
    using GetLeaseByID_matches [of dynamo_db corrupt_store "[lease_1, lease_2]" "[lease_1, lease_2]" "''lease-1''"]
    by (simp add: example_defs)
  have w1: "GetLeaseByID dynamo_db ''lease-1'' example_store =
     ((Some \<lparr>AccountID = ''111'', PrincipalID = ''u1'', Lease.ID = ''lease-1'',
              LeaseStatus = ''Active'', LeaseStatusReason = [], LeaseStatusModifiedOn = 0,
              ExpiresOn = 1700000000, Lease.LastModifiedOn = 0\<rparr>, None), example_store)"
    using GetLeaseByID_matches [of dynamo_db example_store "[lease_1]" "[lease_1]" "''lease-1''"]
    by (simp add: example_defs unmarshalLease_def UnmarshalMap_Lease_def bindE_def
          decodeString_def decodeInt64_def)
  from w0 w2 w1 show ?thesis by blast
qed

subsection \<open>Queries without a match\<close>

lemma FindAccountsByStatus_never_nil:
  "fst (fst (FindAccountsByStatus db status s)) \<noteq> None"
  by (simp add: FindAccountsByStatus_def split: prod.splits sum.splits)

text \<open>
  C9. When no account of the table has the status asked for, \<open>FindAccountsByStatus\<close>
  returns the empty, non-nil slice and no error; for every client and every outcome the
  slice it returns is non-nil. When no lease of the table belongs to the principal,
  \<open>FindLeasesByPrincipal\<close> returns the nil slice (which has no element) and no error.
\<close>

theorem Find_no_matches:
  "(Client db = dynamo \<and> d (AccountTableName db) = Some accounts \<and>
      \<not> (\<exists>it \<in> set accounts. it ''AccountStatus'' = Some (S status)) \<longrightarrow>
      FindAccountsByStatus db status d = ((Some [], None), d)) \<and>
   fst (fst (FindAccountsByStatus db' status s)) \<noteq> None \<and>
   (Client db = dynamo \<and> d (LeaseTableName db) = Some leases \<and>
      \<not> (\<exists>it \<in> set leases. it ''PrincipalId'' = Some (S principalID)) \<longrightarrow>
      FindLeasesByPrincipal db principalID d = ((None, None), d))"
proof (intro conjI impI)
  assume a: "Client db = dynamo \<and> d (AccountTableName db) = Some accounts \<and>
      \<not> (\<exists>it \<in> set accounts. it ''AccountStatus'' = Some (S status))"
  then have "filter (\<lambda>it. it ''AccountStatus'' = Some (S status)) accounts = []"
    by (simp add: filter_empty_conv)
  with a show "FindAccountsByStatus db status d = ((Some [], None), d)"
    by (simp add: FindAccountsByStatus_def dynamo_def dynamo_Query_def)
next
  show "fst (fst (FindAccountsByStatus db' status s)) \<noteq> None"
    by (rule FindAccountsByStatus_never_nil)
next
  assume a: "Client db = dynamo \<and> d (LeaseTableName db) = Some leases \<and>
      \<not> (\<exists>it \<in> set leases. it ''PrincipalId'' = Some (S principalID))"
  then have "filter (\<lambda>it. it ''PrincipalId'' = Some (S principalID)) leases = []"
    by (simp add: filter_empty_conv)
  with a show "FindLeasesByPrincipal db principalID d = ((None, None), d)"
    by (simp add: FindLeasesByPrincipal_def dynamo_def dynamo_Query_def)
qed

theorem Find_no_matches_witness:
  "FindAccountsByStatus dynamo_db ''Leased'' example_store = ((Some [], None), example_store) \<and>
   FindLeasesByPrincipal dynamo_db ''u7'' example_store = ((None, None), example_store)"
  using Find_no_matches [of dynamo_db example_store "[account_111]" "''Leased''" dynamo_db
          example_store "[lease_1]" "''u7''"]
  by (simp add: example_defs)

subsection \<open>Validation in the upsert\<close>

text \<open>
  C4. A lease whose \<^verbatim>\<open>ID\<close> is empty or whose \<^verbatim>\<open>ExpiresOn\<close> is zero makes
  \<open>UpsertLease\<close> return an error whose message names the lease's principal and
  account, with the state of the client as it was, whatever the client is; on a client
  that records its calls, no call is recorded.
\<close>

theorem UpsertLease_validation:
  "Lease.ID lease = [] \<or> ExpiresOn lease = 0 \<Longrightarrow>
   UpsertLease db lease s =
     ((None, Some (ErrorString
        (''failed to create lease for '' @ PrincipalID lease @ ''/'' @ AccountID lease @
         (if Lease.ID lease = [] then '': missing ID'' else '': missing ExpiresOn'')))), s) \<and>
   (Client db' = traced c \<longrightarrow> snd (snd (UpsertLease db' lease (s', calls))) = calls)"
  by (auto simp: UpsertLease_def)

theorem UpsertLease_validation_witness:
  "UpsertLease traced_db
     \<lparr>AccountID = ''111'', PrincipalID = ''u1'', Lease.ID = [], LeaseStatus = ''Active'',
      LeaseStatusReason = [], LeaseStatusModifiedOn = 0, ExpiresOn = 1700000000,
      Lease.LastModifiedOn = 0\<rparr> (example_store, []) =
     ((None, Some (ErrorString ''failed to create lease for u1/111: missing ID'')),
      (example_store, [])) \<and>
   UpsertLease traced_db
     \<lparr>AccountID = ''111'', PrincipalID = ''u1'', Lease.ID = ''lease-1'', LeaseStatus = ''Active'',
      LeaseStatusReason = [], LeaseStatusModifiedOn = 0, ExpiresOn = 0,
      Lease.LastModifiedOn = 0\<rparr> (example_store, []) =
     ((None, Some (ErrorString ''failed to create lease for u1/111: missing ExpiresOn'')),
      (example_store, []))"
  using UpsertLease_validation [of
     "\<lparr>AccountID = ''111'', PrincipalID = ''u1'', Lease.ID = [], LeaseStatus = ''Active'',
      LeaseStatusReason = [], LeaseStatusModifiedOn = 0, ExpiresOn = 1700000000,
      Lease.LastModifiedOn = 0\<rparr>" traced_db "(example_store, [])" traced_db dynamo example_store "[]"]
    UpsertLease_validation [of
     "\<lparr>AccountID = ''111'', PrincipalID = ''u1'', Lease.ID = ''lease-1'', LeaseStatus = ''Active'',
      LeaseStatusReason = [], LeaseStatusModifiedOn = 0, ExpiresOn = 0,
      Lease.LastModifiedOn = 0\<rparr>" traced_db "(example_store, [])" traced_db dynamo example_store "[]"]
  by simp

subsection \<open>Status transitions on the reference service\<close>

lemma dynamo_UpdateItem_guard_fails:
  assumes "d (UpdateItemInput.TableName inp) = Some items"
    and "\<not> list_ex (\<lambda>(n, v). n \<in> fst ` set (UpdateItemInput.Key inp)) (UpdateExpression inp)"
    and "\<not> condition_holds (ConditionExpression inp) (find (has_key (UpdateItemInput.Key inp)) items)"
  shows "dynamo_UpdateItem inp d =
           (Inl (AwsError ''ConditionalCheckFailedException'' ''The conditional request failed''), d)"
  using assms by (simp add: dynamo_UpdateItem_def Let_def)

lemma dynamo_UpdateItem_guard_holds:
  assumes "d (UpdateItemInput.TableName inp) = Some items"
    and "\<not> list_ex (\<lambda>(n, v). n \<in> fst ` set (UpdateItemInput.Key inp)) (UpdateExpression inp)"
    and "find (has_key (UpdateItemInput.Key inp)) items = Some it"
    and "condition_holds (ConditionExpression inp) (Some it)"
    and "ReturnValues inp = ''ALL_NEW''"
  shows "dynamo_UpdateItem inp d =
           (Inr \<lparr>Attributes = apply_update (UpdateExpression inp) it\<rparr>,
            d(UpdateItemInput.TableName inp \<mapsto>
                map (\<lambda>x. if has_key (UpdateItemInput.Key inp) x
                          then apply_update (UpdateExpression inp) it else x) items))"
  using assms by (simp add: dynamo_UpdateItem_def Let_def cong: if_cong)

lemma TransitionAccountStatus_mismatch:
  assumes "Client db = dynamo" and "d (AccountTableName db) = Some accounts"
    and "condition_holds (Some (''AccountStatus'', S prevStatus))
           (find (has_key [(''Id'', S accountID)]) accounts) = False"
  shows "TransitionAccountStatus db accountID prevStatus nextStatus now d =
     ((None, Some (StatusTransitionError
        (''unable to update account status from '' @ dq @ prevStatus @ dq @
         '' to '' @ dq @ nextStatus @ dq @ '' for account '' @ accountID @
         '': no account exists with Status='' @ dq @ prevStatus @ dq))), d)"
  using assms
  by (simp add: TransitionAccountStatus_def dynamo_def dynamo_UpdateItem_guard_fails)

lemma TransitionLeaseStatus_mismatch:
  assumes "Client db = dynamo" and "d (LeaseTableName db) = Some leases"
    and "condition_holds (Some (''LeaseStatus'', S prevStatus))
           (find (has_key [(''AccountId'', S accountID), (''PrincipalId'', S principalID)])
              leases) = False"
  shows "TransitionLeaseStatus db accountID principalID prevStatus nextStatus reason now1 now2 d =
     ((None, Some (StatusTransitionError
        (''unable to update lease status from '' @ dq @ prevStatus @ dq @
         '' to '' @ dq @ nextStatus @ dq @ '' for '' @ accountID @ ''/'' @
         principalID @ '': no lease exists with Status='' @ dq @ prevStatus @ dq))), d)"
  using assms
  by (simp add: TransitionLeaseStatus_def dynamo_def dynamo_UpdateItem_guard_fails)

lemma Transition_other_failure:
  assumes "\<forall>inp. fst (UpdateItem (Client db) inp s) = Inl err"
    and "\<forall>m. err \<noteq> AwsError ''ConditionalCheckFailedException'' m"
  shows "fst (TransitionAccountStatus db accountID prevStatus nextStatus now s) = (None, Some err)"
    and "fst (TransitionLeaseStatus db accountID principalID prevLease nextLease reason now1 now2 s) =
           (None, Some err)"
proof -
  let ?a = "\<lparr>UpdateItemInput.TableName = AccountTableName db,
              UpdateItemInput.Key = [(''Id'', S accountID)],
              UpdateExpression =
                [(''AccountStatus'', S nextStatus), (''LastModifiedOn'', N (sint now))],
              ConditionExpression = Some (''AccountStatus'', S prevStatus),
              ReturnValues = ''ALL_NEW''\<rparr>"
  from assms(1) have "fst (UpdateItem (Client db) ?a s) = Inl err" by blast
  then obtain s' where "UpdateItem (Client db) ?a s = (Inl err, s')"
    by (cases "UpdateItem (Client db) ?a s") auto
  with assms(2) show "fst (TransitionAccountStatus db accountID prevStatus nextStatus now s) = (None, Some err)"
    by (cases err) (auto simp: TransitionAccountStatus_def)
  let ?l = "\<lparr>UpdateItemInput.TableName = LeaseTableName db,
              UpdateItemInput.Key =
                [(''AccountId'', S accountID), (''PrincipalId'', S principalID)],
              UpdateExpression =
                [(''LeaseStatus'', S nextLease),
                 (''LeaseStatusReason'', S reason),
                 (''LastModifiedOn'', N (sint now1)),
                 (''LeaseStatusModifiedOn'', N (sint now2))],
              ConditionExpression = Some (''LeaseStatus'', S prevLease),
              ReturnValues = ''ALL_NEW''\<rparr>"
  from assms(1) have "fst (UpdateItem (Client db) ?l s) = Inl err" by blast
  then obtain s' where "UpdateItem (Client db) ?l s = (Inl err, s')"
    by (cases "UpdateItem (Client db) ?l s") auto
  with assms(2) show "fst (TransitionLeaseStatus db accountID principalID prevLease nextLease reason now1 now2 s) =
           (None, Some err)"
    by (cases err) (auto simp: TransitionLeaseStatus_def)
qed

lemma decodeString_S [simp]: "decodeString (Some (S s)) = Inr s"
  by (simp add: decodeString_def)

lemma find_map_replace:
  assumes "find P xs = Some x" and "P y"
  shows "find P (map (\<lambda>z. if P z then y else z) xs) = Some y"
  using assms by (induction xs) (auto split: if_splits)

lemma TransitionAccountStatus_accepted:
  assumes "Client db = dynamo" and "d (AccountTableName db) = Some accounts"
    and "find (has_key [(''Id'', S accountID)]) accounts = Some it"
    and "it ''AccountStatus'' = Some (S prevStatus)"
    and "it' = it(''AccountStatus'' \<mapsto> S nextStatus, ''LastModifiedOn'' \<mapsto> N (sint now))"
    and "accounts' = map (\<lambda>x. if x ''Id'' = Some (S accountID) then it' else x) accounts"
  shows "TransitionAccountStatus db accountID prevStatus nextStatus now d =
           (unmarshalAccount it', d(AccountTableName db \<mapsto> accounts'))"
    and "find (has_key [(''Id'', S accountID)]) accounts' = Some it'"
proof -
  let ?inp = "\<lparr>UpdateItemInput.TableName = AccountTableName db,
              UpdateItemInput.Key = [(''Id'', S accountID)],
              UpdateExpression =
                [(''AccountStatus'', S nextStatus), (''LastModifiedOn'', N (sint now))],
              ConditionExpression = Some (''AccountStatus'', S prevStatus),
              ReturnValues = ''ALL_NEW''\<rparr>"
  have upd: "dynamo_UpdateItem ?inp d =
      (Inr \<lparr>Attributes = it'\<rparr>, d(AccountTableName db \<mapsto> accounts'))"
    using dynamo_UpdateItem_guard_holds [of d ?inp accounts it] assms(2,3,4)
    by (simp add: condition_holds_def assms(5,6) cong: if_cong)
  show "TransitionAccountStatus db accountID prevStatus nextStatus now d =
           (unmarshalAccount it', d(AccountTableName db \<mapsto> accounts'))"
    using upd assms(1) by (simp add: TransitionAccountStatus_def dynamo_def)
  have key: "it ''Id'' = Some (S accountID)"
    using assms(3) by (auto simp: find_Some_iff)
  show "find (has_key [(''Id'', S accountID)]) accounts' = Some it'"
    using find_map_replace [of "has_key [(''Id'', S accountID)]" accounts it it'] assms(3) key
    by (simp add: assms(5,6))
qed




text \<open>
  C1. When the record stored under the key exists and its status attribute is not
  \<open>prevStatus\<close>, \<open>TransitionAccountStatus\<close> and \<open>TransitionLeaseStatus\<close> return a
  \<open>StatusTransitionError\<close> whose message names the attempted previous and next status
  and the ids, whatever the next status is, and the table is unchanged. A failure of the
  service that is not the failed condition check is returned as it is: the error of a
  service that fails every update with \<open>err\<close> comes back as \<open>err\<close>, not as a
  \<open>StatusTransitionError\<close>.
\<close>

theorem Transition_guard_failure:
  "(Client db = dynamo \<and> d (AccountTableName db) = Some accounts \<and>
      find (has_key [(''Id'', S accountID)]) accounts = Some it \<and>
      it ''AccountStatus'' \<noteq> Some (S prevStatus) \<longrightarrow>
      TransitionAccountStatus db accountID prevStatus nextStatus now d =
        ((None, Some (StatusTransitionError
           (''unable to update account status from '' @ dq @ prevStatus @ dq @
            '' to '' @ dq @ nextStatus @ dq @ '' for account '' @ accountID @
            '': no account exists with Status='' @ dq @ prevStatus @ dq))), d)) \<and>
   (Client db = dynamo \<and> d (LeaseTableName db) = Some leases \<and>
      find (has_key [(''AccountId'', S accountID), (''PrincipalId'', S principalID)]) leases =
        Some lt \<and>
      lt ''LeaseStatus'' \<noteq> Some (S prevLease) \<longrightarrow>
      TransitionLeaseStatus db accountID principalID prevLease nextLease reason now1 now2 d =
        ((None, Some (StatusTransitionError
           (''unable to update lease status from '' @ dq @ prevLease @ dq @
            '' to '' @ dq @ nextLease @ dq @ '' for '' @ accountID @ ''/'' @
            principalID @ '': no lease exists with Status='' @ dq @ prevLease @ dq))), d)) \<and>
   ((\<forall>inp. fst (UpdateItem (Client db') inp s) = Inl err) \<and>
      (\<forall>m. err \<noteq> AwsError ''ConditionalCheckFailedException'' m) \<longrightarrow>
      fst (TransitionAccountStatus db' accountID prevStatus nextStatus now s) =
        (None, Some err) \<and>
      fst (TransitionLeaseStatus db' accountID principalID prevLease nextLease reason
             now1 now2 s) = (None, Some err))"
proof (intro conjI impI)
  assume a: "Client db = dynamo \<and> d (AccountTableName db) = Some accounts \<and>
      find (has_key [(''Id'', S accountID)]) accounts = Some it \<and>
      it ''AccountStatus'' \<noteq> Some (S prevStatus)"
  then show "TransitionAccountStatus db accountID prevStatus nextStatus now d =
        ((None, Some (StatusTransitionError
           (''unable to update account status from '' @ dq @ prevStatus @ dq @
            '' to '' @ dq @ nextStatus @ dq @ '' for account '' @ accountID @
            '': no account exists with Status='' @ dq @ prevStatus @ dq))), d)"
    using TransitionAccountStatus_mismatch [of db d accounts prevStatus accountID nextStatus now]
    by (simp add: condition_holds_def)
next
  assume a: "Client db = dynamo \<and> d (LeaseTableName db) = Some leases \<and>
      find (has_key [(''AccountId'', S accountID), (''PrincipalId'', S principalID)]) leases =
        Some lt \<and>
      lt ''LeaseStatus'' \<noteq> Some (S prevLease)"
  then show "TransitionLeaseStatus db accountID principalID prevLease nextLease reason
        now1 now2 d =
        ((None, Some (StatusTransitionError
           (''unable to update lease status from '' @ dq @ prevLease @ dq @
            '' to '' @ dq @ nextLease @ dq @ '' for '' @ accountID @ ''/'' @
            principalID @ '': no lease exists with Status='' @ dq @ prevLease @ dq))), d)"
    using TransitionLeaseStatus_mismatch [of db d leases prevLease accountID principalID
            nextLease reason now1 now2]
    by (simp add: condition_holds_def)
next
  assume a: "(\<forall>inp. fst (UpdateItem (Client db') inp s) = Inl err) \<and>
      (\<forall>m. err \<noteq> AwsError ''ConditionalCheckFailedException'' m)"
  then show "fst (TransitionAccountStatus db' accountID prevStatus nextStatus now s) =
        (None, Some err)"
    using Transition_other_failure(1) [of db' s err accountID prevStatus nextStatus now]
    by simp
  from a show "fst (TransitionLeaseStatus db' accountID principalID prevLease nextLease reason
             now1 now2 s) = (None, Some err)"
    using Transition_other_failure(2) [of db' s err accountID principalID prevLease nextLease
            reason now1 now2]
    by simp
qed

theorem Transition_guard_failure_witness:
  "TransitionAccountStatus dynamo_db ''111'' ''Leased'' ''Ready'' 1700000000 example_store =
     ((None, Some (StatusTransitionError
        (''unable to update account status from '' @ dq @ ''Leased'' @ dq @
         '' to '' @ dq @ ''Ready'' @ dq @ '' for account 111'' @
         '': no account exists with Status='' @ dq @ ''Leased'' @ dq))), example_store) \<and>
   TransitionLeaseStatus dynamo_db ''111'' ''u1'' ''ResetLock'' ''Active'' ''unlock''
       1700000000 1700000001 example_store =
     ((None, Some (StatusTransitionError
        (''unable to update lease status from '' @ dq @ ''ResetLock'' @ dq @
         '' to '' @ dq @ ''Active'' @ dq @ '' for 111/u1'' @
         '': no lease exists with Status='' @ dq @ ''ResetLock'' @ dq))), example_store) \<and>
   fst (TransitionAccountStatus dynamo_db ''111'' ''Leased'' ''Ready'' 1700000000 Map.empty) =
     (None, Some (AwsError ''ResourceNotFoundException'' ''Requested resource not found'')) \<and>
   fst (TransitionLeaseStatus dynamo_db ''111'' ''u1'' ''ResetLock'' ''Active'' ''unlock''
       1700000000 1700000001 Map.empty) =
     (None, Some (AwsError ''ResourceNotFoundException'' ''Requested resource not found''))"
  using Transition_guard_failure [of dynamo_db example_store "[account_111]" "''111''"
      account_111 "''Leased''" "''Ready''" 1700000000 "[lease_1]" "''u1''" lease_1
      "''ResetLock''" "''Active''" "''unlock''" 1700000000 1700000001 dynamo_db Map.empty
      "AwsError ''ResourceNotFoundException'' ''Requested resource not found''"]
  by (simp add: example_defs dynamo_def dynamo_UpdateItem_def)

text \<open>
  C10. When the table holds no record at all under the key, \<open>TransitionAccountStatus\<close>
  and \<open>TransitionLeaseStatus\<close> return a \<open>StatusTransitionError\<close> (an error, not the
  nil result of a lookup that found nothing), and the table is returned as it was: no
  record is created or changed.
\<close>

theorem Transition_absent_record:
  "(Client db = dynamo \<and> d (AccountTableName db) = Some accounts \<and>
      \<not> (\<exists>it \<in> set accounts. it ''Id'' = Some (S accountID)) \<longrightarrow>
      TransitionAccountStatus db accountID prevStatus nextStatus now d =
        ((None, Some (StatusTransitionError
           (''unable to update account status from '' @ dq @ prevStatus @ dq @
            '' to '' @ dq @ nextStatus @ dq @ '' for account '' @ accountID @
            '': no account exists with Status='' @ dq @ prevStatus @ dq))), d)) \<and>
   (Client db = dynamo \<and> d (LeaseTableName db) = Some leases \<and>
      \<not> (\<exists>it \<in> set leases. it ''AccountId'' = Some (S accountID) \<and>
                               it ''PrincipalId'' = Some (S principalID)) \<longrightarrow>
      TransitionLeaseStatus db accountID principalID prevLease nextLease reason now1 now2 d =
        ((None, Some (StatusTransitionError
           (''unable to update lease status from '' @ dq @ prevLease @ dq @
            '' to '' @ dq @ nextLease @ dq @ '' for '' @ accountID @ ''/'' @
            principalID @ '': no lease exists with Status='' @ dq @ prevLease @ dq))), d))"
proof (intro conjI impI)
  assume a: "Client db = dynamo \<and> d (AccountTableName db) = Some accounts \<and>
      \<not> (\<exists>it \<in> set accounts. it ''Id'' = Some (S accountID))"
  then have "find (has_key [(''Id'', S accountID)]) accounts = None"
    by (simp add: find_None_iff)
  with a show "TransitionAccountStatus db accountID prevStatus nextStatus now d =
        ((None, Some (StatusTransitionError
           (''unable to update account status from '' @ dq @ prevStatus @ dq @
            '' to '' @ dq @ nextStatus @ dq @ '' for account '' @ accountID @
            '': no account exists with Status='' @ dq @ prevStatus @ dq))), d)"
    using TransitionAccountStatus_mismatch [of db d accounts prevStatus accountID nextStatus now]
    by (simp add: condition_holds_def)
next
  assume a: "Client db = dynamo \<and> d (LeaseTableName db) = Some leases \<and>
      \<not> (\<exists>it \<in> set leases. it ''AccountId'' = Some (S accountID) \<and>
                               it ''PrincipalId'' = Some (S principalID))"
  then have "find (has_key [(''AccountId'', S accountID), (''PrincipalId'', S principalID)])
               leases = None"
    by (simp add: find_None_iff)
  with a show "TransitionLeaseStatus db accountID principalID prevLease nextLease reason
        now1 now2 d =
        ((None, Some (StatusTransitionError
           (''unable to update lease status from '' @ dq @ prevLease @ dq @
            '' to '' @ dq @ nextLease @ dq @ '' for '' @ accountID @ ''/'' @
            principalID @ '': no lease exists with Status='' @ dq @ prevLease @ dq))), d)"
    using TransitionLeaseStatus_mismatch [of db d leases prevLease accountID principalID
            nextLease reason now1 now2]
    by (simp add: condition_holds_def)
qed

theorem Transition_absent_record_witness:
  "TransitionAccountStatus dynamo_db ''999'' ''Ready'' ''Leased'' 1700000000 example_store =
     ((None, Some (StatusTransitionError
        (''unable to update account status from '' @ dq @ ''Ready'' @ dq @
         '' to '' @ dq @ ''Leased'' @ dq @ '' for account 999'' @
         '': no account exists with Status='' @ dq @ ''Ready'' @ dq))), example_store) \<and>
   TransitionLeaseStatus dynamo_db ''999'' ''u1'' ''Active'' ''Inactive'' ''expired''
       1700000000 1700000001 example_store =
     ((None, Some (StatusTransitionError
        (''unable to update lease status from '' @ dq @ ''Active'' @ dq @
         '' to '' @ dq @ ''Inactive'' @ dq @ '' for 999/u1'' @
         '': no lease exists with Status='' @ dq @ ''Active'' @ dq))), example_store)"
  using Transition_absent_record [of dynamo_db example_store "[account_111]" "''999''"
      "''Ready''" "''Leased''" 1700000000 "[lease_1]" "''u1''"
      "''Active''" "''Inactive''" "''expired''" 1700000000 1700000001]
  by (simp add: example_defs)

subsection \<open>The update expression of the upsert\<close>

lemma containsStr_set [simp]: "containsStr list item = (item \<in> set list)"
  by (induction list) auto

lemma find_by_name:
  "distinct (map Name fs) \<Longrightarrow> f \<in> set fs \<Longrightarrow> find (\<lambda>g. Name g = Name f) fs = Some f"
  by (induction fs) (auto simp: image_iff)

lemma GetFieldTag_json:
  "distinct (map Name fs) \<Longrightarrow> f \<in> set fs \<Longrightarrow>
   reflections_GetFieldTag (GoStruct fs) (Name f) ''json'' = Inr (external_name f)"
  by (simp add: reflections_GetFieldTag_def find_by_name external_name_def)

lemma buildUpdateExpression_loop_struct:
  assumes "obj inp = GoStruct fs" and "distinct (map Name fs)" and "set gs \<subseteq> set fs"
  shows "buildUpdateExpression_loop inp se si (map (\<lambda>f. (Name f, FieldValue f)) gs) ub =
     Inr (ub @ map (\<lambda>f. (external_name f, FieldValue f))
                 (filter (\<lambda>f. \<not> (se \<and> Name f \<in> set (excludeFields inp)) \<and>
                              \<not> (si \<and> Name f \<notin> set (includeFields inp))) gs))"
  using assms(3)
proof (induction gs arbitrary: ub)
  case Nil
  then show ?case by simp
next
  case (Cons g gs)
  then have g: "g \<in> set fs" and gs: "set gs \<subseteq> set fs" by auto
  have tag: "reflections_GetFieldTag (obj inp) (Name g) ''json'' = Inr (external_name g)"
    using GetFieldTag_json [OF assms(2) g] assms(1) by simp
  show ?case
    using Cons.IH [OF gs] tag by (simp add: Let_def UpdateBuilder_Set_def)
qed

lemma buildUpdateExpression_struct:
  assumes "obj inp = GoStruct fs" and "distinct (map Name fs)"
    and "excludeFields inp = [] \<or> includeFields inp = []"
  shows "buildUpdateExpression inp =
     (case Builder_Build (map (\<lambda>f. (external_name f, FieldValue f)) (filter (selected inp) fs)) of
        (expr, err) \<Rightarrow> (Some expr, err))"
proof -
  have sel: "filter (\<lambda>f. \<not> (0 < length (excludeFields inp) \<and> Name f \<in> set (excludeFields inp)) \<and>
    \<not> (0 < length (includeFields inp) \<and> Name f \<notin> set (includeFields inp))) fs =
    filter (selected inp) fs"
    using assms(3) by (intro filter_cong) (auto simp: selected_def)
  have loop: "buildUpdateExpression_loop inp (0 < length (excludeFields inp))
      (0 < length (includeFields inp)) (map (\<lambda>f. (Name f, FieldValue f)) fs) [] =
      Inr (map (\<lambda>f. (external_name f, FieldValue f)) (filter (selected inp) fs))"
    using buildUpdateExpression_loop_struct [OF assms(1,2), of fs
         "0 < length (excludeFields inp)" "0 < length (includeFields inp)" "[]"]
    unfolding sel by simp
  have both: "\<not> (0 < length (excludeFields inp) \<and> 0 < length (includeFields inp))"
    using assms(3) by auto
  show ?thesis
    unfolding buildUpdateExpression_def Let_def
    using both by (simp only: if_False reflections_Items_def assms(1) Obj.case sum.case loop)
qed

lemma Builder_Build_ok:
  "Builder_Build ub = (expr, None) \<Longrightarrow> Update expr = map (\<lambda>(n, v). (n, Marshal v)) ub"
  by (auto simp: Builder_Build_def split: if_splits)

theorem buildUpdateExpression_names:
  assumes "obj inp = GoStruct fs" and "distinct (map Name fs)"
    and "buildUpdateExpression inp = (Some expr, None)"
  shows "Update expr =
           map (\<lambda>f. (external_name f, Marshal (FieldValue f))) (filter (selected inp) fs)"
proof -
  have one: "excludeFields inp = [] \<or> includeFields inp = []"
    using assms(3) by (auto simp: buildUpdateExpression_def Let_def split: if_splits)
  from buildUpdateExpression_struct [OF assms(1,2) one] assms(3)
  have "Builder_Build (map (\<lambda>f. (external_name f, FieldValue f)) (filter (selected inp) fs)) =
          (expr, None)"
    by (auto split: prod.splits)
  from Builder_Build_ok [OF this] show ?thesis by (simp add: comp_def)
qed

lemma Lease_update_expression:
  "buildUpdateExpression
     \<lparr>obj = Lease_struct lease, excludeFields = [''AccountID'', ''PrincipalID''],
      includeFields = []\<rparr> =
   (Some \<lparr>Update =
      [(''Id'', Marshal (GoString (Lease.ID lease))),
       (''LeaseStatus'', Marshal (GoString (LeaseStatus lease))),
       (''LeaseStatusReason'', Marshal (GoString (LeaseStatusReason lease))),
       (''LeaseStatusModifiedOn'', Marshal (GoInt64 (LeaseStatusModifiedOn lease))),
       (''ExpiresOn'', Marshal (GoInt64 (ExpiresOn lease))),
       (''LastModifiedOn'', Marshal (GoInt64 (Lease.LastModifiedOn lease)))]\<rparr>, None)"
  by (simp add: buildUpdateExpression_def Lease_struct_def reflections_Items_def
        reflections_GetFieldTag_def UpdateBuilder_Set_def Builder_Build_def Let_def)

lemma decodeString_Marshal [simp]: "decodeString (Some (Marshal (GoString s))) = Inr s"
  by (simp add: Marshal_def decodeString_def)

lemma decodeInt64_Marshal [simp]: "decodeInt64 (Some (Marshal (GoInt64 w))) = Inr w"
  using sint_ge [of w] sint_lt [of w] by (simp add: Marshal_def decodeInt64_def)

lemma Lease_round_trip:
  "UnmarshalMap_Lease
     (apply_update
        [(''Id'', Marshal (GoString (Lease.ID lease))),
         (''LeaseStatus'', Marshal (GoString (LeaseStatus lease))),
         (''LeaseStatusReason'', Marshal (GoString (LeaseStatusReason lease))),
         (''LeaseStatusModifiedOn'', Marshal (GoInt64 (LeaseStatusModifiedOn lease))),
         (''ExpiresOn'', Marshal (GoInt64 (ExpiresOn lease))),
         (''LastModifiedOn'', Marshal (GoInt64 (Lease.LastModifiedOn lease)))]
        (map_of [(''AccountId'', S (AccountID lease)),
                 (''PrincipalId'', S (PrincipalID lease))])) = Inr lease"
  by (simp add: UnmarshalMap_Lease_def bindE_def)

text \<open>
  C7. For a struct \<open>fs\<close> (whose field names are distinct, as those of a Go struct are),
  an expression that \<open>buildUpdateExpression\<close> returns assigns, to each selected field,
  under the field's external name (its \<^verbatim>\<open>json\<close> tag), the encoded value of the field:
  the names are the tags, not the internal names. For the lease that \<open>UpsertLease\<close>
  passes, the expression is built, its names are \<^verbatim>\<open>Id\<close>, \<^verbatim>\<open>LeaseStatus\<close>, ... (the
  field \<^verbatim>\<open>ID\<close> is written under \<^verbatim>\<open>Id\<close>), and they are the names the decoder reads:
  the expression applied to the item made of the key decodes back to the lease.
\<close>

theorem update_expression_external_names:
  "(obj inp = GoStruct fs \<and> distinct (map Name fs) \<and>
      buildUpdateExpression inp = (Some expr, None) \<longrightarrow>
      Update expr =
        map (\<lambda>f. (external_name f, Marshal (FieldValue f))) (filter (selected inp) fs)) \<and>
   (\<exists>lexpr.
      buildUpdateExpression
        \<lparr>obj = Lease_struct lease, excludeFields = [''AccountID'', ''PrincipalID''],
         includeFields = []\<rparr> = (Some lexpr, None) \<and>
      map fst (Update lexpr) =
        [''Id'', ''LeaseStatus'', ''LeaseStatusReason'', ''LeaseStatusModifiedOn'',
         ''ExpiresOn'', ''LastModifiedOn''] \<and>
      UnmarshalMap_Lease
        (apply_update (Update lexpr)
           (map_of [(''AccountId'', S (AccountID lease)),
                    (''PrincipalId'', S (PrincipalID lease))])) = Inr lease)"
proof (intro conjI impI)
  assume "obj inp = GoStruct fs \<and> distinct (map Name fs) \<and>
      buildUpdateExpression inp = (Some expr, None)"
  then show "Update expr =
        map (\<lambda>f. (external_name f, Marshal (FieldValue f))) (filter (selected inp) fs)"
    using buildUpdateExpression_names [of inp fs expr] by simp
next
  show "\<exists>lexpr.
      buildUpdateExpression
        \<lparr>obj = Lease_struct lease, excludeFields = [''AccountID'', ''PrincipalID''],
         includeFields = []\<rparr> = (Some lexpr, None) \<and>
      map fst (Update lexpr) =
        [''Id'', ''LeaseStatus'', ''LeaseStatusReason'', ''LeaseStatusModifiedOn'',
         ''ExpiresOn'', ''LastModifiedOn''] \<and>
      UnmarshalMap_Lease
        (apply_update (Update lexpr)
           (map_of [(''AccountId'', S (AccountID lease)),
                    (''PrincipalId'', S (PrincipalID lease))])) = Inr lease"
    using Lease_update_expression [of lease] Lease_round_trip [of lease]
    by (intro exI conjI) (assumption, simp_all)
qed

theorem update_expression_external_names_witness:
  "buildUpdateExpression
     \<lparr>obj = GoStruct example_fields, excludeFields = [],
      includeFields = [''ID'', ''Note'']\<rparr> =
     (Some \<lparr>Update = [(''Id'', S ''lease-1''), (''note'', S ''n'')]\<rparr>, None) \<and>
   Update \<lparr>Update = [(''Id'', S ''lease-1''), (''note'', S ''n'')]\<rparr> =
     map (\<lambda>f. (external_name f, Marshal (FieldValue f)))
       (filter (selected \<lparr>obj = GoStruct example_fields, excludeFields = [],
                          includeFields = [''ID'', ''Note'']\<rparr>) example_fields)"
proof -
  have b: "buildUpdateExpression
     \<lparr>obj = GoStruct example_fields, excludeFields = [],
      includeFields = [''ID'', ''Note'']\<rparr> =
     (Some \<lparr>Update = [(''Id'', S ''lease-1''), (''note'', S ''n'')]\<rparr>, None)"
    by (simp add: buildUpdateExpression_def example_fields_def reflections_Items_def
          reflections_GetFieldTag_def UpdateBuilder_Set_def Builder_Build_def Let_def
          Marshal_def)
  have d: "distinct (map Name example_fields)"
    by (simp add: example_fields_def)
  from update_expression_external_names [of
      "\<lparr>obj = GoStruct example_fields, excludeFields = [],
        includeFields = [''ID'', ''Note'']\<rparr>" example_fields
      "\<lparr>Update = [(''Id'', S ''lease-1''), (''note'', S ''n'')]\<rparr>" example_lease] b d
  show ?thesis by simp
qed

text \<open>
  C6. For a lease that passes validation, \<open>UpsertLease\<close> makes exactly one call, an
  \<^verbatim>\<open>UpdateItem\<close> on the lease table keyed by \<^verbatim>\<open>AccountId\<close> and \<^verbatim>\<open>PrincipalId\<close>,
  with no condition, whose update expression assigns every field of the lease other
  than \<^verbatim>\<open>AccountID\<close> and \<^verbatim>\<open>PrincipalID\<close> (each under its external name, with its encoded
  value) and assigns neither key attribute.
\<close>

theorem UpsertLease_update_expression:
  assumes "Lease.ID lease \<noteq> []" and "ExpiresOn lease \<noteq> 0" and "Client db = traced c"
    and "Lease_struct lease = GoStruct fs"
    and "sets = [(''Id'', Marshal (GoString (Lease.ID lease))),
                 (''LeaseStatus'', Marshal (GoString (LeaseStatus lease))),
                 (''LeaseStatusReason'', Marshal (GoString (LeaseStatusReason lease))),
                 (''LeaseStatusModifiedOn'', Marshal (GoInt64 (LeaseStatusModifiedOn lease))),
                 (''ExpiresOn'', Marshal (GoInt64 (ExpiresOn lease))),
                 (''LastModifiedOn'', Marshal (GoInt64 (Lease.LastModifiedOn lease)))]"
  shows "snd (snd (UpsertLease db lease (s, calls))) =
           calls @ [CallUpdateItem
             \<lparr>UpdateItemInput.TableName = LeaseTableName db,
              UpdateItemInput.Key =
                [(''AccountId'', S (AccountID lease)), (''PrincipalId'', S (PrincipalID lease))],
              UpdateExpression = sets,
              ConditionExpression = None,
              ReturnValues = ''ALL_NEW''\<rparr>] \<and>
         sets = map (\<lambda>f. (external_name f, Marshal (FieldValue f)))
                  (filter (\<lambda>f. Name f \<noteq> ''AccountID'' \<and> Name f \<noteq> ''PrincipalID'') fs) \<and>
         ''AccountId'' \<notin> fst ` set sets \<and> ''PrincipalId'' \<notin> fst ` set sets"
proof -
  have call: "snd (snd (UpsertLease db lease (s, calls))) =
           calls @ [CallUpdateItem
             \<lparr>UpdateItemInput.TableName = LeaseTableName db,
              UpdateItemInput.Key =
                [(''AccountId'', S (AccountID lease)), (''PrincipalId'', S (PrincipalID lease))],
              UpdateExpression = sets,
              ConditionExpression = None,
              ReturnValues = ''ALL_NEW''\<rparr>]"
    using assms(1,2,3)
    by (simp add: UpsertLease_def Lease_update_expression traced_def assms(5) Let_def
          split: prod.splits sum.splits option.splits)
  have fs: "fs = (case Lease_struct lease of GoStruct xs \<Rightarrow> xs | NotAStruct \<Rightarrow> [])"
    using assms(4) by simp
  have every: "sets = map (\<lambda>f. (external_name f, Marshal (FieldValue f)))
                  (filter (\<lambda>f. Name f \<noteq> ''AccountID'' \<and> Name f \<noteq> ''PrincipalID'') fs)"
    unfolding fs by (simp add: Lease_struct_def assms(5) external_name_def)
  have keys: "''AccountId'' \<notin> fst ` set sets \<and> ''PrincipalId'' \<notin> fst ` set sets"
    by (simp add: assms(5))
  from call every keys show ?thesis by blast
qed

theorem UpsertLease_update_expression_witness:
  "snd (snd (UpsertLease traced_db example_lease (example_store, []))) =
     [CallUpdateItem
        \<lparr>UpdateItemInput.TableName = ''Leases'',
         UpdateItemInput.Key = [(''AccountId'', S ''111''), (''PrincipalId'', S ''u1'')],
         UpdateExpression =
           [(''Id'', S ''lease-1''), (''LeaseStatus'', S ''Active''),
            (''LeaseStatusReason'', NULL), (''LeaseStatusModifiedOn'', N 0),
            (''ExpiresOn'', N 1700000000), (''LastModifiedOn'', N 0)],
         ConditionExpression = None,
         ReturnValues = ''ALL_NEW''\<rparr>] \<and>
   fst (UpsertLease traced_db example_lease (example_store, [])) = (Some example_lease, None)"
proof -
  have r: "fst (UpsertLease traced_db example_lease (example_store, [])) =
             (Some example_lease, None)"
    by (simp add: UpsertLease_def Lease_update_expression traced_def dynamo_def
          dynamo_UpdateItem_def condition_holds_def example_defs Marshal_def Let_def
          unmarshalLease_def
          UnmarshalMap_Lease_def bindE_def decodeString_def decodeInt64_def)
  from UpsertLease_update_expression [of example_lease traced_db dynamo
      "case Lease_struct example_lease of GoStruct xs \<Rightarrow> xs | NotAStruct \<Rightarrow> []"
      "[(''Id'', Marshal (GoString (Lease.ID example_lease))),
        (''LeaseStatus'', Marshal (GoString (LeaseStatus example_lease))),
        (''LeaseStatusReason'', Marshal (GoString (LeaseStatusReason example_lease))),
        (''LeaseStatusModifiedOn'', Marshal (GoInt64 (LeaseStatusModifiedOn example_lease))),
        (''ExpiresOn'', Marshal (GoInt64 (ExpiresOn example_lease))),
        (''LastModifiedOn'', Marshal (GoInt64 (Lease.LastModifiedOn example_lease)))]"
      example_store "[]"]
  have "snd (snd (UpsertLease traced_db example_lease (example_store, []))) =
     [CallUpdateItem
        \<lparr>UpdateItemInput.TableName = ''Leases'',
         UpdateItemInput.Key = [(''AccountId'', S ''111''), (''PrincipalId'', S ''u1'')],
         UpdateExpression =
           [(''Id'', S ''lease-1''), (''LeaseStatus'', S ''Active''),
            (''LeaseStatusReason'', NULL), (''LeaseStatusModifiedOn'', N 0),
            (''ExpiresOn'', N 1700000000), (''LastModifiedOn'', N 0)],
         ConditionExpression = None,
         ReturnValues = ''ALL_NEW''\<rparr>]"
    by (simp add: example_lease_def traced_db_def Lease_struct_def Marshal_def)
  with r show ?thesis by blast
qed

subsection \<open>Concurrent identical transitions\<close>

lemma decodeString_error:
  "decodeString av = Inl e \<Longrightarrow> \<exists>v ty. e = UnmarshalTypeError v ty"
  by (auto simp: decodeString_def split: option.splits AttributeValue.splits)

lemma decodeInt64_error:
  "decodeInt64 av = Inl e \<Longrightarrow> \<exists>v ty. e = UnmarshalTypeError v ty"
  by (auto simp: decodeInt64_def split: option.splits AttributeValue.splits if_splits)

lemma decodeMap_error:
  "decodeMap av = Inl e \<Longrightarrow> \<exists>v ty. e = UnmarshalTypeError v ty"
  by (auto simp: decodeMap_def split: option.splits AttributeValue.splits)

lemma bindE_InlE:
  assumes "bindE m f = Inl e"
  obtains "m = Inl e" | x where "m = Inr x" and "f x = Inl e"
  using assms by (cases m) (auto simp: bindE_def)

lemma UnmarshalMap_Account_error:
  assumes "UnmarshalMap_Account it = Inl e"
  shows "\<exists>v ty. e = UnmarshalTypeError v ty"
  using assms unfolding UnmarshalMap_Account_def
  by (elim bindE_InlE) (auto dest: decodeString_error decodeInt64_error decodeMap_error)

lemma unmarshalAccount_error:
  "unmarshalAccount it = (r, Some e) \<Longrightarrow> \<exists>v ty. e = UnmarshalTypeError v ty"
  using UnmarshalMap_Account_error [of it e]
  by (auto simp: unmarshalAccount_def split: sum.splits)

lemma unmarshalAccount_no_conflict: "\<not> conflicted (unmarshalAccount it)"
proof (cases "unmarshalAccount it")
  case (Pair r e)
  show ?thesis
  proof (cases e)
    case None
    with Pair show ?thesis by (cases r) simp_all
  next
    case (Some err)
    with Pair unmarshalAccount_error [of it r err] obtain v ty
      where "err = UnmarshalTypeError v ty" by blast
    with Pair Some show ?thesis by (cases r) simp_all
  qed
qed

lemma inv_step:
  assumes db: "Client db = dynamo" and ne: "prevStatus \<noteq> nextStatus"
    and st0: "it0 ''AccountStatus'' = Some (S prevStatus)"
    and inv: "transition_inv (AccountTableName db) accountID nextStatus it0 cfg"
    and step: "transition_step db accountID prevStatus nextStatus cfg cfg'"
  shows "transition_inv (AccountTableName db) accountID nextStatus it0 cfg'"
  using step
proof cases
  case (call i cs now s r s')
  from inv have "\<exists>accounts it. s (AccountTableName db) = Some accounts \<and>
        find (has_key [(''Id'', S accountID)]) accounts = Some it \<and>
        ((it = it0 \<and> (\<forall>k < length cs. snd (cs ! k) = None)) \<or>
         (\<exists>j < length cs.
             it = it0(''AccountStatus'' \<mapsto> S nextStatus,
                      ''LastModifiedOn'' \<mapsto> N (sint (fst (cs ! j)))) \<and>
             snd (cs ! j) = Some (unmarshalAccount it) \<and>
             (\<forall>k < length cs. k \<noteq> j \<longrightarrow>
                snd (cs ! k) = None \<or> (\<exists>r. snd (cs ! k) = Some r \<and> conflicted r))))"
    unfolding transition_inv_def call(1) by simp
  then obtain accounts it where
    tab: "s (AccountTableName db) = Some accounts" and
    rec: "find (has_key [(''Id'', S accountID)]) accounts = Some it" and
    ph: "(it = it0 \<and> (\<forall>k < length cs. snd (cs ! k) = None)) \<or>
         (\<exists>j < length cs.
             it = it0(''AccountStatus'' \<mapsto> S nextStatus,
                      ''LastModifiedOn'' \<mapsto> N (sint (fst (cs ! j)))) \<and>
             snd (cs ! j) = Some (unmarshalAccount it) \<and>
             (\<forall>k < length cs. k \<noteq> j \<longrightarrow>
                snd (cs ! k) = None \<or> (\<exists>r. snd (cs ! k) = Some r \<and> conflicted r)))"
    by blast
  let ?cs' = "cs[i := (now, Some r)]"
  from ph show ?thesis
  proof
    assume p1: "it = it0 \<and> (\<forall>k < length cs. snd (cs ! k) = None)"
    define it' where "it' = it(''AccountStatus'' \<mapsto> S nextStatus,
                               ''LastModifiedOn'' \<mapsto> N (sint now))"
    define accounts' where
      "accounts' = map (\<lambda>x. if x ''Id'' = Some (S accountID) then it' else x) accounts"
    have st: "it ''AccountStatus'' = Some (S prevStatus)" using p1 st0 by simp
    have res: "TransitionAccountStatus db accountID prevStatus nextStatus now s =
           (unmarshalAccount it', s(AccountTableName db \<mapsto> accounts'))"
      using TransitionAccountStatus_accepted(1) [of db s accounts accountID it prevStatus it'
          nextStatus now accounts'] db tab rec st it'_def accounts'_def by simp
    have stored: "find (has_key [(''Id'', S accountID)]) accounts' = Some it'"
      using TransitionAccountStatus_accepted(2) [of db s accounts accountID it prevStatus it'
          nextStatus now accounts'] db tab rec st it'_def accounts'_def by simp
    from res call(5) have r: "r = unmarshalAccount it'"
      and s': "s' = s(AccountTableName db \<mapsto> accounts')" by simp_all
    have i: "i < length ?cs'" using call(3) by simp
    have ci: "?cs' ! i = (now, Some r)" using call(3) by simp
    have winner: "it' = it0(''AccountStatus'' \<mapsto> S nextStatus,
                            ''LastModifiedOn'' \<mapsto> N (sint (fst (?cs' ! i)))) \<and>
                  snd (?cs' ! i) = Some (unmarshalAccount it')"
      using ci r p1 by (simp add: it'_def)
    have others: "\<forall>k < length ?cs'. k \<noteq> i \<longrightarrow>
                snd (?cs' ! k) = None \<or> (\<exists>r'. snd (?cs' ! k) = Some r' \<and> conflicted r')"
      using p1 by simp
    have "\<exists>j < length ?cs'.
             it' = it0(''AccountStatus'' \<mapsto> S nextStatus,
                       ''LastModifiedOn'' \<mapsto> N (sint (fst (?cs' ! j)))) \<and>
             snd (?cs' ! j) = Some (unmarshalAccount it') \<and>
             (\<forall>k < length ?cs'. k \<noteq> j \<longrightarrow>
                snd (?cs' ! k) = None \<or> (\<exists>r'. snd (?cs' ! k) = Some r' \<and> conflicted r'))"
      using i winner others by blast
    with stored show ?thesis
      unfolding transition_inv_def call(2) s'
      by (intro exI [of _ accounts'] exI [of _ it']) simp
  next
    assume p2: "\<exists>j < length cs.
             it = it0(''AccountStatus'' \<mapsto> S nextStatus,
                      ''LastModifiedOn'' \<mapsto> N (sint (fst (cs ! j)))) \<and>
             snd (cs ! j) = Some (unmarshalAccount it) \<and>
             (\<forall>k < length cs. k \<noteq> j \<longrightarrow>
                snd (cs ! k) = None \<or> (\<exists>r. snd (cs ! k) = Some r \<and> conflicted r))"
    then obtain j where j: "j < length cs"
      "it = it0(''AccountStatus'' \<mapsto> S nextStatus,
                ''LastModifiedOn'' \<mapsto> N (sint (fst (cs ! j))))"
      "snd (cs ! j) = Some (unmarshalAccount it)"
      "\<forall>k < length cs. k \<noteq> j \<longrightarrow>
                snd (cs ! k) = None \<or> (\<exists>r. snd (cs ! k) = Some r \<and> conflicted r)"
      by blast
    have "it ''AccountStatus'' = Some (S nextStatus)" using j(2) by simp
    then have nc: "condition_holds (Some (''AccountStatus'', S prevStatus))
           (find (has_key [(''Id'', S accountID)]) accounts) = False"
      using rec ne by (simp add: condition_holds_def)
    from TransitionAccountStatus_mismatch [of db s accounts prevStatus accountID nextStatus now]
      db tab nc call(5)
    have r: "conflicted r" and s': "s' = s" by auto
    have ij: "i \<noteq> j" using j(3) call(4) by auto
    have cj: "?cs' ! j = cs ! j" using ij by simp
    have "\<exists>j < length ?cs'.
             it = it0(''AccountStatus'' \<mapsto> S nextStatus,
                      ''LastModifiedOn'' \<mapsto> N (sint (fst (?cs' ! j)))) \<and>
             snd (?cs' ! j) = Some (unmarshalAccount it) \<and>
             (\<forall>k < length ?cs'. k \<noteq> j \<longrightarrow>
                snd (?cs' ! k) = None \<or> (\<exists>r'. snd (?cs' ! k) = Some r' \<and> conflicted r'))"
    proof (intro exI [of _ j] conjI allI impI)
      show "j < length ?cs'" using j(1) by simp
      show "it = it0(''AccountStatus'' \<mapsto> S nextStatus,
                      ''LastModifiedOn'' \<mapsto> N (sint (fst (?cs' ! j))))"
        using j(2) cj by simp
      show "snd (?cs' ! j) = Some (unmarshalAccount it)" using j(3) cj by simp
    next
      fix k
      assume k: "k < length ?cs'" "k \<noteq> j"
      show "snd (?cs' ! k) = None \<or> (\<exists>r'. snd (?cs' ! k) = Some r' \<and> conflicted r')"
      proof (cases "k = i")
        case True
        then have "snd (?cs' ! k) = Some r" using call(3) by simp
        with r show ?thesis by blast
      next
        case False
        then have "?cs' ! k = cs ! k" by simp
        with j(4) k show ?thesis by (simp del: split_paired_Ex)
      qed
    qed
    with tab rec show ?thesis
      unfolding transition_inv_def call(2) s'
      by (intro exI [of _ accounts] exI [of _ it]) simp
  qed
qed

lemma inv_run:
  assumes db: "Client db = dynamo" and ne: "prevStatus \<noteq> nextStatus"
    and st0: "it0 ''AccountStatus'' = Some (S prevStatus)"
    and run: "(transition_step db accountID prevStatus nextStatus)\<^sup>*\<^sup>* cfg cfg'"
    and inv: "transition_inv (AccountTableName db) accountID nextStatus it0 cfg"
  shows "transition_inv (AccountTableName db) accountID nextStatus it0 cfg'"
  using run inv
proof (induction rule: rtranclp_induct)
  case base
  then show ?case .
next
  case (step y z)
  then show ?case
    using inv_step [of db prevStatus nextStatus it0 accountID y z] db ne st0 by blast
qed

lemma step_length:
  "transition_step db accountID prevStatus nextStatus cfg cfg' \<Longrightarrow>
   length (fst cfg') = length (fst cfg)"
  by (auto elim: transition_step.cases)

lemma run_length:
  "(transition_step db accountID prevStatus nextStatus)\<^sup>*\<^sup>* cfg cfg' \<Longrightarrow>
   length (fst cfg') = length (fst cfg)"
  by (induction rule: rtranclp_induct) (auto dest: step_length)

lemma run_completes_from:
  "\<exists>cs' s'. (transition_step db accountID prevStatus nextStatus)\<^sup>*\<^sup>*
              (pre @ map (\<lambda>n. (n, None)) nows, s) (pre @ cs', s') \<and>
            length cs' = length nows \<and> (\<forall>c \<in> set cs'. snd c \<noteq> None)"
proof (induction nows arbitrary: pre s)
  case Nil
  show ?case by (intro exI [of _ "[]"] exI [of _ s]) simp
next
  case (Cons n ns)
  obtain r s1 where t: "TransitionAccountStatus db accountID prevStatus nextStatus n s = (r, s1)"
    by (cases "TransitionAccountStatus db accountID prevStatus nextStatus n s") blast
  have "transition_step db accountID prevStatus nextStatus
          (pre @ map (\<lambda>n. (n, None)) (n # ns), s)
          ((pre @ map (\<lambda>n. (n, None)) (n # ns))[length pre := (n, Some r)], s1)"
    using t by (intro transition_step.call) simp_all
  then have first: "transition_step db accountID prevStatus nextStatus
          (pre @ map (\<lambda>n. (n, None)) (n # ns), s)
          ((pre @ [(n, Some r)]) @ map (\<lambda>n. (n, None)) ns, s1)"
    by (simp add: list_update_append)
  from Cons.IH [of "pre @ [(n, Some r)]" s1] obtain cs' s' where
    rest: "(transition_step db accountID prevStatus nextStatus)\<^sup>*\<^sup>*
              ((pre @ [(n, Some r)]) @ map (\<lambda>n. (n, None)) ns, s1)
              ((pre @ [(n, Some r)]) @ cs', s')"
    and len: "length cs' = length ns" and all: "\<forall>c \<in> set cs'. snd c \<noteq> None"
    by blast
  from first rest have "(transition_step db accountID prevStatus nextStatus)\<^sup>*\<^sup>*
              (pre @ map (\<lambda>n. (n, None)) (n # ns), s) (pre @ ((n, Some r) # cs'), s')"
    by (simp add: converse_rtranclp_into_rtranclp)
  with len all show ?case
    by (intro exI [of _ "(n, Some r) # cs'"] exI [of _ s']) simp
qed

lemma TransitionAccountStatus_single_call:
  "Client db = traced c \<Longrightarrow>
   snd (snd (TransitionAccountStatus db accountID prevStatus nextStatus now (s, calls))) =
     calls @ [CallUpdateItem
       \<lparr>UpdateItemInput.TableName = AccountTableName db,
        UpdateItemInput.Key = [(''Id'', S accountID)],
        UpdateExpression =
          [(''AccountStatus'', S nextStatus), (''LastModifiedOn'', N (sint now))],
        ConditionExpression = Some (''AccountStatus'', S prevStatus),
        ReturnValues = ''ALL_NEW''\<rparr>]"
  by (auto simp: TransitionAccountStatus_def traced_def split: prod.splits sum.splits error.splits)

text \<open>
  C3 (as amended). Let the account table hold under \<open>accountID\<close> a record \<open>it\<close> whose
  status is \<open>prevStatus\<close>, and let one or more callers issue the same transition to a
  next status that differs from \<open>prevStatus\<close>. In every run in which all callers have
  returned, whatever the order of their calls, the write of exactly one caller was
  accepted: the table holds \<open>it\<close> with that caller's write applied, that caller
  returned what \<open>unmarshalAccount\<close> makes of the record as written (which is never a
  \<open>StatusTransitionError\<close>), and every other caller received a
  \<open>StatusTransitionError\<close>. Such a run exists. Every call of
  \<open>TransitionAccountStatus\<close> makes exactly one request to the service, a conditional
  \<^verbatim>\<open>UpdateItem\<close> guarded by the previous status, and no read.
\<close>

theorem concurrent_transition_once:
  assumes "Client db = dynamo" and "d (AccountTableName db) = Some accounts"
    and "find (has_key [(''Id'', S accountID)]) accounts = Some it"
    and "it ''AccountStatus'' = Some (S prevStatus)"
    and "prevStatus \<noteq> nextStatus" and "nows \<noteq> []"
    and "(transition_step db accountID prevStatus nextStatus)\<^sup>*\<^sup>*
           (map (\<lambda>n. (n, None)) nows, d) (cs, d')"
    and "\<forall>k < length cs. snd (cs ! k) \<noteq> None"
    and "Client tdb = traced c"
  shows "length cs = length nows \<and>
         (\<exists>j < length cs. \<exists>accounts' it'.
            it' = it(''AccountStatus'' \<mapsto> S nextStatus,
                     ''LastModifiedOn'' \<mapsto> N (sint (fst (cs ! j)))) \<and>
            d' (AccountTableName db) = Some accounts' \<and>
            find (has_key [(''Id'', S accountID)]) accounts' = Some it' \<and>
            snd (cs ! j) = Some (unmarshalAccount it') \<and>
            \<not> conflicted (unmarshalAccount it') \<and>
            (\<forall>k < length cs. k \<noteq> j \<longrightarrow> (\<exists>r. snd (cs ! k) = Some r \<and> conflicted r))) \<and>
         (\<exists>cs' d''. (transition_step db accountID prevStatus nextStatus)\<^sup>*\<^sup>*
                      (map (\<lambda>n. (n, None)) nows, d) (cs', d'') \<and>
                    (\<forall>k < length cs'. snd (cs' ! k) \<noteq> None)) \<and>
         snd (snd (TransitionAccountStatus tdb accountID prevStatus nextStatus now (s, calls))) =
           calls @ [CallUpdateItem
             \<lparr>UpdateItemInput.TableName = AccountTableName tdb,
              UpdateItemInput.Key = [(''Id'', S accountID)],
              UpdateExpression =
                [(''AccountStatus'', S nextStatus), (''LastModifiedOn'', N (sint now))],
              ConditionExpression = Some (''AccountStatus'', S prevStatus),
              ReturnValues = ''ALL_NEW''\<rparr>]"
proof -
  have len: "length cs = length nows"
    using run_length [OF assms(7)] by simp
  have init: "transition_inv (AccountTableName db) accountID nextStatus it
                (map (\<lambda>n. (n, None)) nows, d)"
    unfolding transition_inv_def using assms(2,3)
    by (intro exI [of _ accounts] exI [of _ it]) simp
  have "transition_inv (AccountTableName db) accountID nextStatus it (cs, d')"
    using inv_run [of db prevStatus nextStatus it accountID "(map (\<lambda>n. (n, None)) nows, d)"
        "(cs, d')"] assms(1,4,5,7) init by blast
  then obtain accounts' it' where
    tab: "d' (AccountTableName db) = Some accounts'" and
    rec: "find (has_key [(''Id'', S accountID)]) accounts' = Some it'" and
    ph: "(it' = it \<and> (\<forall>k < length cs. snd (cs ! k) = None)) \<or>
         (\<exists>j < length cs.
             it' = it(''AccountStatus'' \<mapsto> S nextStatus,
                      ''LastModifiedOn'' \<mapsto> N (sint (fst (cs ! j)))) \<and>
             snd (cs ! j) = Some (unmarshalAccount it') \<and>
             (\<forall>k < length cs. k \<noteq> j \<longrightarrow>
                snd (cs ! k) = None \<or> (\<exists>r. snd (cs ! k) = Some r \<and> conflicted r)))"
    unfolding transition_inv_def by (simp del: split_paired_Ex) blast
  have pos: "0 < length cs" using len assms(6) by simp
  have notall: "\<not> (\<forall>k < length cs. snd (cs ! k) = None)"
    using pos assms(8) by blast
  from ph notall obtain j where j: "j < length cs"
      "it' = it(''AccountStatus'' \<mapsto> S nextStatus,
                ''LastModifiedOn'' \<mapsto> N (sint (fst (cs ! j))))"
      "snd (cs ! j) = Some (unmarshalAccount it')"
      "\<forall>k < length cs. k \<noteq> j \<longrightarrow>
         snd (cs ! k) = None \<or> (\<exists>r. snd (cs ! k) = Some r \<and> conflicted r)"
    by blast
  have others: "\<forall>k < length cs. k \<noteq> j \<longrightarrow> (\<exists>r. snd (cs ! k) = Some r \<and> conflicted r)"
    using j(4) assms(8) by blast
  have one: "\<exists>j < length cs. \<exists>accounts' it'.
            it' = it(''AccountStatus'' \<mapsto> S nextStatus,
                     ''LastModifiedOn'' \<mapsto> N (sint (fst (cs ! j)))) \<and>
            d' (AccountTableName db) = Some accounts' \<and>
            find (has_key [(''Id'', S accountID)]) accounts' = Some it' \<and>
            snd (cs ! j) = Some (unmarshalAccount it') \<and>
            \<not> conflicted (unmarshalAccount it') \<and>
            (\<forall>k < length cs. k \<noteq> j \<longrightarrow> (\<exists>r. snd (cs ! k) = Some r \<and> conflicted r))"
    using j(1,2,3) tab rec others unmarshalAccount_no_conflict [of it'] by blast
  from run_completes_from [of db accountID prevStatus nextStatus "[]" nows d]
  obtain cs' d'' where "(transition_step db accountID prevStatus nextStatus)\<^sup>*\<^sup>*
                      (map (\<lambda>n. (n, None)) nows, d) (cs', d'')"
     and "\<forall>c \<in> set cs'. snd c \<noteq> None"
    by auto
  then have ex: "\<exists>cs' d''. (transition_step db accountID prevStatus nextStatus)\<^sup>*\<^sup>*
                      (map (\<lambda>n. (n, None)) nows, d) (cs', d'') \<and>
                    (\<forall>k < length cs'. snd (cs' ! k) \<noteq> None)"
    by (intro exI [of _ cs'] exI [of _ d'']) simp
  from len one ex TransitionAccountStatus_single_call [OF assms(9)]
  show ?thesis by blast
qed

lemma ready_to_leased:
  "TransitionAccountStatus dynamo_db ''111'' ''Ready'' ''Leased'' 1700000000 example_store =
     ((Some \<lparr>Account.ID = ''111'', Status = ''Leased'', Account.LastModifiedOn = 1700000000,
              CreatedOn = 0, AdminRoleArn = [], PrincipalRoleArn = [],
              PrincipalPolicyHash = [], Metadata = None\<rparr>, None),
      example_store(''Accounts'' \<mapsto>
        [account_111(''AccountStatus'' \<mapsto> S ''Leased'',
                     ''LastModifiedOn'' \<mapsto> N 1700000000)]))"
  by (simp add: TransitionAccountStatus_def dynamo_def dynamo_UpdateItem_def
        condition_holds_def example_defs unmarshalAccount_def UnmarshalMap_Account_def
        bindE_def decodeString_def decodeInt64_def decodeMap_def Let_def)

lemma leased_again:
  "TransitionAccountStatus dynamo_db ''111'' ''Ready'' ''Leased'' 1700000001
     (example_store(''Accounts'' \<mapsto>
        [account_111(''AccountStatus'' \<mapsto> S ''Leased'',
                     ''LastModifiedOn'' \<mapsto> N 1700000000)])) =
     ((None, Some (StatusTransitionError
        (''unable to update account status from '' @ dq @ ''Ready'' @ dq @
         '' to '' @ dq @ ''Leased'' @ dq @ '' for account 111'' @
         '': no account exists with Status='' @ dq @ ''Ready'' @ dq))),
      example_store(''Accounts'' \<mapsto>
        [account_111(''AccountStatus'' \<mapsto> S ''Leased'',
                     ''LastModifiedOn'' \<mapsto> N 1700000000)]))"
  by (simp add: TransitionAccountStatus_def dynamo_def dynamo_UpdateItem_def
        condition_holds_def example_defs Let_def)

theorem concurrent_transition_once_witness:
  "(transition_step dynamo_db ''111'' ''Ready'' ''Leased'')\<^sup>*\<^sup>*
     ([(1700000001, None), (1700000000, None)], example_store)
     ([(1700000001, Some (None, Some (StatusTransitionError
          (''unable to update account status from '' @ dq @ ''Ready'' @ dq @
           '' to '' @ dq @ ''Leased'' @ dq @ '' for account 111'' @
           '': no account exists with Status='' @ dq @ ''Ready'' @ dq)))),
       (1700000000, Some (Some \<lparr>Account.ID = ''111'', Status = ''Leased'',
              Account.LastModifiedOn = 1700000000,
              CreatedOn = 0, AdminRoleArn = [], PrincipalRoleArn = [],
              PrincipalPolicyHash = [], Metadata = None\<rparr>, None))],
      example_store(''Accounts'' \<mapsto>
        [account_111(''AccountStatus'' \<mapsto> S ''Leased'',
                     ''LastModifiedOn'' \<mapsto> N 1700000000)])) \<and>
   snd (snd (TransitionAccountStatus traced_db ''111'' ''Ready'' ''Leased'' 1700000000
               (example_store, []))) =
     [CallUpdateItem
        \<lparr>UpdateItemInput.TableName = ''Accounts'',
         UpdateItemInput.Key = [(''Id'', S ''111'')],
         UpdateExpression =
           [(''AccountStatus'', S ''Leased''), (''LastModifiedOn'', N 1700000000)],
         ConditionExpression = Some (''AccountStatus'', S ''Ready''),
         ReturnValues = ''ALL_NEW''\<rparr>]"
proof -
  let ?r1 = "(Some \<lparr>Account.ID = ''111'', Status = ''Leased'',
              Account.LastModifiedOn = 1700000000,
              CreatedOn = 0, AdminRoleArn = [], PrincipalRoleArn = [],
              PrincipalPolicyHash = [], Metadata = None\<rparr>, None)"
  let ?r2 = "(None, Some (StatusTransitionError
          (''unable to update account status from '' @ dq @ ''Ready'' @ dq @
           '' to '' @ dq @ ''Leased'' @ dq @ '' for account 111'' @
           '': no account exists with Status='' @ dq @ ''Ready'' @ dq)))"
  let ?d1 = "example_store(''Accounts'' \<mapsto>
        [account_111(''AccountStatus'' \<mapsto> S ''Leased'',
                     ''LastModifiedOn'' \<mapsto> N 1700000000)])"
  have s1: "transition_step dynamo_db ''111'' ''Ready'' ''Leased''
              ([(1700000001, None), (1700000000, None)], example_store)
              ([(1700000001, None), (1700000000, Some ?r1)], ?d1)"
    using transition_step.call [of 1 "[(1700000001, None), (1700000000, None)]" 1700000000
            dynamo_db "''111''" "''Ready''" "''Leased''" example_store ?r1 ?d1]
          ready_to_leased
    by simp
  have s2: "transition_step dynamo_db ''111'' ''Ready'' ''Leased''
              ([(1700000001, None), (1700000000, Some ?r1)], ?d1)
              ([(1700000001, Some ?r2), (1700000000, Some ?r1)], ?d1)"
    using transition_step.call [of 0 "[(1700000001, None), (1700000000, Some ?r1)]" 1700000001
            dynamo_db "''111''" "''Ready''" "''Leased''" ?d1 ?r2 ?d1]
          leased_again
    by simp
  have run: "(transition_step dynamo_db ''111'' ''Ready'' ''Leased'')\<^sup>*\<^sup>*
     ([(1700000001, None), (1700000000, None)], example_store)
     ([(1700000001, Some ?r2), (1700000000, Some ?r1)], ?d1)"
    using s1 s2 by (meson rtranclp.rtrancl_into_rtrancl rtranclp.rtrancl_refl)
  from concurrent_transition_once [of dynamo_db example_store "[account_111]" "''111''"
      account_111 "''Ready''" "''Leased''" "[1700000001, 1700000000]"
      "[(1700000001, Some ?r2), (1700000000, Some ?r1)]" ?d1 traced_db dynamo
      1700000000 example_store "[]"] run
  have "snd (snd (TransitionAccountStatus traced_db ''111'' ''Ready'' ''Leased'' 1700000000
               (example_store, []))) =
     [CallUpdateItem
        \<lparr>UpdateItemInput.TableName = ''Accounts'',
         UpdateItemInput.Key = [(''Id'', S ''111'')],
         UpdateExpression =
           [(''AccountStatus'', S ''Leased''), (''LastModifiedOn'', N 1700000000)],
         ConditionExpression = Some (''AccountStatus'', S ''Ready''),
         ReturnValues = ''ALL_NEW''\<rparr>]"
    by (simp add: example_defs less_Suc_eq)
  with run show ?thesis by blast
qed

lemma ready_to_ready:
  "TransitionAccountStatus dynamo_db ''111'' ''Ready'' ''Ready'' 1700000000 example_store =
     ((Some \<lparr>Account.ID = ''111'', Status = ''Ready'', Account.LastModifiedOn = 1700000000,
              CreatedOn = 0, AdminRoleArn = [], PrincipalRoleArn = [],
              PrincipalPolicyHash = [], Metadata = None\<rparr>, None),
      example_store(''Accounts'' \<mapsto>
        [account_111(''AccountStatus'' \<mapsto> S ''Ready'',
                     ''LastModifiedOn'' \<mapsto> N 1700000000)]))"
  by (simp add: TransitionAccountStatus_def dynamo_def dynamo_UpdateItem_def
        condition_holds_def example_defs unmarshalAccount_def UnmarshalMap_Account_def
        bindE_def decodeString_def decodeInt64_def decodeMap_def Let_def)

lemma ready_to_ready_again:
  "TransitionAccountStatus dynamo_db ''111'' ''Ready'' ''Ready'' 1700000000
     (example_store(''Accounts'' \<mapsto>
        [account_111(''AccountStatus'' \<mapsto> S ''Ready'',
                     ''LastModifiedOn'' \<mapsto> N 1700000000)])) =
     ((Some \<lparr>Account.ID = ''111'', Status = ''Ready'', Account.LastModifiedOn = 1700000000,
              CreatedOn = 0, AdminRoleArn = [], PrincipalRoleArn = [],
              PrincipalPolicyHash = [], Metadata = None\<rparr>, None),
      example_store(''Accounts'' \<mapsto>
        [account_111(''AccountStatus'' \<mapsto> S ''Ready'',
                     ''LastModifiedOn'' \<mapsto> N 1700000000)]))"
  by (simp add: TransitionAccountStatus_def dynamo_def dynamo_UpdateItem_def
        condition_holds_def example_defs unmarshalAccount_def UnmarshalMap_Account_def
        bindE_def decodeString_def decodeInt64_def decodeMap_def Let_def)

text \<open>
  C3 as stated fails when the next status equals the previous one: the guard still
  holds after the first write, so two callers of the transition from \<^verbatim>\<open>Ready\<close> to
  \<^verbatim>\<open>Ready\<close> both succeed.
\<close>

theorem concurrent_transition_same_status_counterexample:
  "(transition_step dynamo_db ''111'' ''Ready'' ''Ready'')\<^sup>*\<^sup>*
     ([(1700000000, None), (1700000000, None)], example_store)
     ([(1700000000, Some (Some \<lparr>Account.ID = ''111'', Status = ''Ready'',
              Account.LastModifiedOn = 1700000000,
              CreatedOn = 0, AdminRoleArn = [], PrincipalRoleArn = [],
              PrincipalPolicyHash = [], Metadata = None\<rparr>, None)),
       (1700000000, Some (Some \<lparr>Account.ID = ''111'', Status = ''Ready'',
              Account.LastModifiedOn = 1700000000,
              CreatedOn = 0, AdminRoleArn = [], PrincipalRoleArn = [],
              PrincipalPolicyHash = [], Metadata = None\<rparr>, None))],
      example_store(''Accounts'' \<mapsto>
        [account_111(''AccountStatus'' \<mapsto> S ''Ready'',
                     ''LastModifiedOn'' \<mapsto> N 1700000000)])) \<and>
   succeeded (Some \<lparr>Account.ID = ''111'', Status = ''Ready'',
              Account.LastModifiedOn = 1700000000,
              CreatedOn = 0, AdminRoleArn = [], PrincipalRoleArn = [],
              PrincipalPolicyHash = [], Metadata = None\<rparr>, None)"
proof -
  let ?r = "(Some \<lparr>Account.ID = ''111'', Status = ''Ready'',
              Account.LastModifiedOn = 1700000000,
              CreatedOn = 0, AdminRoleArn = [], PrincipalRoleArn = [],
              PrincipalPolicyHash = [], Metadata = None\<rparr>, None)"
  let ?d1 = "example_store(''Accounts'' \<mapsto>
        [account_111(''AccountStatus'' \<mapsto> S ''Ready'',
                     ''LastModifiedOn'' \<mapsto> N 1700000000)])"
  have s1: "transition_step dynamo_db ''111'' ''Ready'' ''Ready''
              ([(1700000000, None), (1700000000, None)], example_store)
              ([(1700000000, Some ?r), (1700000000, None)], ?d1)"
    using transition_step.call [of 0 "[(1700000000, None), (1700000000, None)]" 1700000000
            dynamo_db "''111''" "''Ready''" "''Ready''" example_store ?r ?d1]
          ready_to_ready
    by simp
  have s2: "transition_step dynamo_db ''111'' ''Ready'' ''Ready''
              ([(1700000000, Some ?r), (1700000000, None)], ?d1)
              ([(1700000000, Some ?r), (1700000000, Some ?r)], ?d1)"
    using transition_step.call [of 1 "[(1700000000, Some ?r), (1700000000, None)]" 1700000000
            dynamo_db "''111''" "''Ready''" "''Ready''" ?d1 ?r ?d1]
          ready_to_ready_again
    by simp
  have run: "(transition_step dynamo_db ''111'' ''Ready'' ''Ready'')\<^sup>*\<^sup>*
     ([(1700000000, None), (1700000000, None)], example_store)
     ([(1700000000, Some ?r), (1700000000, Some ?r)], ?d1)"
    using s1 s2 by (meson rtranclp.rtrancl_into_rtrancl rtranclp.rtrancl_refl)
  then show ?thesis by simp
qed

end
